theory Spec2Isabelle
  imports Main "HOL-Library.Word"
begin

unbundle bit_operations_syntax

section \<open>The epoll reactor of Epoll.h / Epoll.cpp\<close>

text \<open>
  The reactor keeps a registry \<open>_monitoredFds\<close> (a \<open>std::unordered_map\<close> from descriptor
  to \<open>MonitoredDescriptor\<close>), talks to the kernel through \<open>epoll_ctl\<close>, \<open>fcntl\<close> and
  \<open>epoll_wait\<close>, and calls back into user code.  The embedding makes these explicit:

  \<^item> \<open>uint32_t\<close> is \<open>32 word\<close>; a descriptor (\<open>int\<close>) is an \<open>int\<close>, no arithmetic is done on it;
  \<^item> a \<open>std::function<void(int)>\<close> slot is a \<open>'cb option\<close>, \<open>None\<close> being the empty function
    (\<open>nullptr\<close>), and a value of \<open>'cb\<close> is a callable object with the state it carries:
    each slot owns the copy stored in it.  What a callback does when called is given by an
    interpretation \<open>run\<close>, which may change the whole reactor (the copy it runs from
    included) and may throw;
  \<^item> the registry is a map \<open>int \<rightharpoonup> 'cb MonitoredDescriptor\<close>;
  \<^item> every system call the reactor issues is appended to the field \<open>syscalls\<close>; whether a call
    succeeds is decided by a kernel oracle \<open>K\<close>, given the calls so far and the call;
  \<^item> a C++ exception is the outcome \<open>Throw e s\<close>, carrying the state the reactor is left in.
\<close>

subsection \<open>Event types\<close>

type_synonym u32 = "32 word"

text \<open>
  The event flags come from the system header \<open><sys/epoll.h>\<close>, which is not part of the
  repository; these are the values Linux gives them.
\<close>

definition EPOLLIN :: u32 where "EPOLLIN = 0x001"
definition EPOLLPRI :: u32 where "EPOLLPRI = 0x002"
definition EPOLLOUT :: u32 where "EPOLLOUT = 0x004"
definition EPOLLERR :: u32 where "EPOLLERR = 0x008"
definition EPOLLHUP :: u32 where "EPOLLHUP = 0x010"
definition EPOLLRDHUP :: u32 where "EPOLLRDHUP = 0x2000"
definition EPOLLET :: u32 where "EPOLLET = 0x80000000"

definition allEventTypes :: "u32 list" where
  "allEventTypes = [EPOLLIN, EPOLLOUT, EPOLLRDHUP, EPOLLPRI, EPOLLERR, EPOLLHUP]"

subsection \<open>MonitoredDescriptor\<close>

record 'cb MonitoredDescriptor =
  isInitialized :: bool
  monitoredFd :: int
  IN_handler :: "'cb option"
  OUT_handler :: "'cb option"
  RDHUP_handler :: "'cb option"
  PRI_handler :: "'cb option"
  ERR_handler :: "'cb option"
  HUP_handler :: "'cb option"

datatype error =
    EpollCreateFailed
  | DescriptorNotAdded
  | MapOutOfRange
  | EpollCtlAddFailed
  | EpollCtlModifyFailed
  | SetNonBlockingFailed
  | InvalidEventType
  | BadFunctionCall
  | CallbackFailed

text \<open>The constructor \<open>MonitoredDescriptor(int monitoredFd)\<close> with the default member values.\<close>

definition newMonitoredDescriptor :: "int \<Rightarrow> 'cb MonitoredDescriptor" where
  "newMonitoredDescriptor fd =
     \<lparr>isInitialized = False, monitoredFd = fd,
      IN_handler = None, OUT_handler = None, RDHUP_handler = None,
      PRI_handler = None, ERR_handler = None, HUP_handler = None\<rparr>"

definition hasHandler :: "'cb MonitoredDescriptor \<Rightarrow> u32 \<Rightarrow> bool" where
  "hasHandler md eventType =
     (if eventType = EPOLLIN then IN_handler md \<noteq> None
      else if eventType = EPOLLOUT then OUT_handler md \<noteq> None
      else if eventType = EPOLLRDHUP then RDHUP_handler md \<noteq> None
      else if eventType = EPOLLPRI then PRI_handler md \<noteq> None
      else if eventType = EPOLLERR then ERR_handler md \<noteq> None
      else if eventType = EPOLLHUP then HUP_handler md \<noteq> None
      else False)"

definition setHandler ::
  "'cb MonitoredDescriptor \<Rightarrow> u32 \<Rightarrow> 'cb option \<Rightarrow> 'cb MonitoredDescriptor" where
  "setHandler md eventType handler =
     (if eventType = EPOLLIN then md\<lparr>IN_handler := handler\<rparr>
      else if eventType = EPOLLOUT then md\<lparr>OUT_handler := handler\<rparr>
      else if eventType = EPOLLRDHUP then md\<lparr>RDHUP_handler := handler\<rparr>
      else if eventType = EPOLLPRI then md\<lparr>PRI_handler := handler\<rparr>
      else if eventType = EPOLLERR then md\<lparr>ERR_handler := handler\<rparr>
      else if eventType = EPOLLHUP then md\<lparr>HUP_handler := handler\<rparr>
      else md)"

definition getHandler :: "'cb MonitoredDescriptor \<Rightarrow> u32 \<Rightarrow> error + 'cb option" where
  "getHandler md eventType =
     (if eventType = EPOLLIN then Inr (IN_handler md)
      else if eventType = EPOLLOUT then Inr (OUT_handler md)
      else if eventType = EPOLLRDHUP then Inr (RDHUP_handler md)
      else if eventType = EPOLLPRI then Inr (PRI_handler md)
      else if eventType = EPOLLERR then Inr (ERR_handler md)
      else if eventType = EPOLLHUP then Inr (HUP_handler md)
      else Inl InvalidEventType)"

subsection \<open>The kernel and exceptions\<close>

datatype syscall =
    EpollCtlAdd int u32
  | EpollCtlMod int u32
  | EpollCtlDel int
  | FcntlGetFl int
  | FcntlSetFlNonBlock int
  | EpollWait int

text \<open>
  The kernel oracle: \<open>K h c\<close> says whether the call \<open>c\<close>, issued after the calls \<open>h\<close>,
  succeeds (the C function does not return \<open>-1\<close>).
\<close>

type_synonym kernel = "syscall list \<Rightarrow> syscall \<Rightarrow> bool"

datatype 's outcome = Done 's | Throw error 's

fun stateOf :: "'s outcome \<Rightarrow> 's" where
  "stateOf (Done s) = s"
| "stateOf (Throw e s) = s"

subsection \<open>Epoll\<close>

record 'cb Epoll =
  monitoredFds :: "int \<rightharpoonup> 'cb MonitoredDescriptor"
  epollFd :: int
  isEdgeTriggered :: bool
  syscalls :: "syscall list"

text \<open>
  The constructor; \<open>created\<close> is what \<open>epoll_create1(0)\<close> returned.
\<close>

definition newEpoll :: "int \<Rightarrow> bool \<Rightarrow> error + 'cb Epoll" where
  "newEpoll created edge =
     (if created = -1 then Inl EpollCreateFailed
      else Inr \<lparr>monitoredFds = Map.empty, epollFd = created,
                isEdgeTriggered = edge, syscalls = []\<rparr>)"

definition epollCtlAdd :: "kernel \<Rightarrow> 'cb Epoll \<Rightarrow> int \<Rightarrow> u32 \<Rightarrow> 'cb Epoll outcome" where
  "epollCtlAdd K s fd evs =
     (let c = EpollCtlAdd fd evs; s' = s\<lparr>syscalls := syscalls s @ [c]\<rparr>
      in if K (syscalls s) c then Done s' else Throw EpollCtlAddFailed s')"

definition epollCtlModify :: "kernel \<Rightarrow> 'cb Epoll \<Rightarrow> int \<Rightarrow> u32 \<Rightarrow> 'cb Epoll outcome" where
  "epollCtlModify K s fd evs =
     (let c = EpollCtlMod fd evs; s' = s\<lparr>syscalls := syscalls s @ [c]\<rparr>
      in if K (syscalls s) c then Done s' else Throw EpollCtlModifyFailed s')"

text \<open>\<open>_epollCtlDelete\<close> ignores what \<open>epoll_ctl\<close> returns.\<close>

definition epollCtlDelete :: "'cb Epoll \<Rightarrow> int \<Rightarrow> 'cb Epoll" where
  "epollCtlDelete s fd = s\<lparr>syscalls := syscalls s @ [EpollCtlDel fd]\<rparr>"

text \<open>
  \<open>_setNonBlocking\<close>: \<open>fcntl(fd, F_GETFL, 0)\<close>, whose result only flows into the argument
  of \<open>fcntl(fd, F_SETFL, ... | O_NONBLOCK)\<close>; the second call's result is tested.
\<close>

definition setNonBlocking :: "kernel \<Rightarrow> 'cb Epoll \<Rightarrow> int \<Rightarrow> 'cb Epoll outcome" where
  "setNonBlocking K s fd =
     (let h = syscalls s @ [FcntlGetFl fd];
          s' = s\<lparr>syscalls := h @ [FcntlSetFlNonBlock fd]\<rparr>
      in if K h (FcntlSetFlNonBlock fd) then Done s' else Throw SetNonBlockingFailed s')"

text \<open>\<open>try_emplace(fd, fd)\<close> inserts a fresh entry only where the key is absent.\<close>

definition addDescriptor :: "kernel \<Rightarrow> 'cb Epoll \<Rightarrow> int \<Rightarrow> 'cb Epoll outcome" where
  "addDescriptor K s fd =
     (let s1 = (case monitoredFds s fd of
                  None \<Rightarrow> s\<lparr>monitoredFds := (monitoredFds s)(fd \<mapsto> newMonitoredDescriptor fd)\<rparr>
                | Some md \<Rightarrow> s)
      in if isEdgeTriggered s1 then setNonBlocking K s1 fd else Done s1)"

definition removeDescriptor :: "'cb Epoll \<Rightarrow> int \<Rightarrow> 'cb Epoll" where
  "removeDescriptor s fd =
     (if monitoredFds s fd \<noteq> None
      then (let s1 = epollCtlDelete s fd in s1\<lparr>monitoredFds := (monitoredFds s1)(fd := None)\<rparr>)
      else s)"

text \<open>
  The loop of \<open>_reloadEventHandlers\<close> over \<open>allEventTypes\<close>, on the pair
  \<open>(resultingEvents, firstEvt)\<close>, and the edge-triggered adjustment after it.
\<close>

definition reloadStep ::
  "'cb MonitoredDescriptor \<Rightarrow> u32 \<times> bool \<Rightarrow> u32 \<Rightarrow> u32 \<times> bool" where
  "reloadStep md acc evt =
     (case acc of (resultingEvents, firstEvt) \<Rightarrow>
        if hasHandler md evt
        then (if firstEvt then (evt, False) else (resultingEvents OR evt, False))
        else (resultingEvents, firstEvt))"

definition resultingEvents :: "bool \<Rightarrow> 'cb MonitoredDescriptor \<Rightarrow> u32" where
  "resultingEvents edge md =
     (case foldl (reloadStep md) (0, True) allEventTypes of (res, firstEvt) \<Rightarrow>
        if edge then (if firstEvt then EPOLLET else res OR EPOLLET) else res)"

text \<open>
  \<open>_reloadEventHandlers(md)\<close>: \<open>md\<close> is a reference to the registry entry stored under
  \<open>key\<close>, so setting \<open>md.isInitialized\<close> writes into the registry.
\<close>

definition reloadEventHandlers ::
  "kernel \<Rightarrow> 'cb Epoll \<Rightarrow> int \<Rightarrow> 'cb MonitoredDescriptor \<Rightarrow> 'cb Epoll outcome" where
  "reloadEventHandlers K s key md =
     (let res = resultingEvents (isEdgeTriggered s) md
      in if isInitialized md then epollCtlModify K s (monitoredFd md) res
         else (case epollCtlAdd K s (monitoredFd md) res of
                 Throw e s' \<Rightarrow> Throw e s'
               | Done s' \<Rightarrow>
                   Done (s'\<lparr>monitoredFds := (monitoredFds s')(key \<mapsto> md\<lparr>isInitialized := True\<rparr>)\<rparr>)))"

text \<open>The loop of \<open>addEventHandler\<close> that fills the slots.\<close>

definition installHandlers ::
  "'cb MonitoredDescriptor \<Rightarrow> u32 \<Rightarrow> 'cb option \<Rightarrow> 'cb MonitoredDescriptor" where
  "installHandlers md eventType eventHandler =
     foldl (\<lambda>m evt. if eventType AND evt \<noteq> 0 then setHandler m evt eventHandler else m)
       md allEventTypes"

definition addEventHandler ::
  "kernel \<Rightarrow> 'cb Epoll \<Rightarrow> int \<Rightarrow> u32 \<Rightarrow> 'cb option \<Rightarrow> 'cb Epoll outcome" where
  "addEventHandler K s fd eventType eventHandler =
     (case monitoredFds s fd of
        None \<Rightarrow> Throw DescriptorNotAdded s
      | Some md \<Rightarrow>
          (let md' = installHandlers md eventType eventHandler;
               s1 = s\<lparr>monitoredFds := (monitoredFds s)(fd \<mapsto> md')\<rparr>
           in reloadEventHandlers K s1 fd md'))"

text \<open>The loop of \<open>removeEventHandler\<close> that empties the slots.\<close>

definition clearHandlers :: "'cb MonitoredDescriptor \<Rightarrow> u32 \<Rightarrow> 'cb MonitoredDescriptor" where
  "clearHandlers md eventType =
     foldl (\<lambda>m evt. if hasHandler m (eventType AND evt)
                     then setHandler m (eventType AND evt) None else m)
       md allEventTypes"

text \<open>\<open>_monitoredFds.at(fd)\<close> throws \<open>std::out_of_range\<close> for a missing key.\<close>

definition removeEventHandler ::
  "kernel \<Rightarrow> 'cb Epoll \<Rightarrow> int \<Rightarrow> u32 \<Rightarrow> 'cb Epoll outcome" where
  "removeEventHandler K s fd eventType =
     (case monitoredFds s fd of
        None \<Rightarrow> Throw MapOutOfRange s
      | Some md \<Rightarrow>
          (let md' = clearHandlers md eventType;
               s1 = s\<lparr>monitoredFds := (monitoredFds s)(fd \<mapsto> md')\<rparr>
           in reloadEventHandlers K s1 fd md'))"

subsection \<open>The wait loop\<close>

datatype epoll_event = EpollEvent (events: u32) (data_fd: int)

text \<open>
  How the loop over \<open>allEventTypes\<close> for one reported event ends: it ran through, it hit
  the \<open>return\<close> of \<open>waitForEvents\<close>, or an exception left it.
\<close>

datatype 's dispatch = Completed 's | Returned 's | Raised error 's

text \<open>
  \<open>run cb slot fd s\<close> is the call \<open>cb(fd)\<close> of the object stored in the slot \<open>slot\<close>
  of descriptor \<open>fd\<close>.  The C++ callable receives \<open>fd\<close> only; \<open>slot\<close> stands for its
  \<open>this\<close>, the place of the copy that is running, so that a callable with members of
  its own can change that copy in place.
\<close>

type_synonym 'cb runner = "'cb \<Rightarrow> u32 \<Rightarrow> int \<Rightarrow> 'cb Epoll \<Rightarrow> 'cb Epoll outcome"

text \<open>
  The inner loop.  The list \<open>calls\<close> records each callback invocation \<open>(cb, fd)\<close> in order,
  \<open>cb\<close> being the object as it was when called; it is kept beside the state, out of the
  callbacks' reach.
\<close>

fun dispatchEvents ::
  "'cb runner \<Rightarrow> u32 \<Rightarrow> int \<Rightarrow> u32 list \<Rightarrow> 'cb Epoll \<Rightarrow> ('cb \<times> int) list
     \<Rightarrow> 'cb Epoll dispatch \<times> ('cb \<times> int) list" where
  "dispatchEvents run evs fd [] s calls = (Completed s, calls)"
| "dispatchEvents run evs fd (evt # evts) s calls =
     (case monitoredFds s fd of
        None \<Rightarrow> (Returned s, calls)
      | Some md \<Rightarrow>
          if hasHandler md (evs AND evt)
          then (case getHandler md (evs AND evt) of
                  Inl e \<Rightarrow> (Raised e s, calls)
                | Inr None \<Rightarrow> (Raised BadFunctionCall s, calls)
                | Inr (Some cb) \<Rightarrow>
                    (case run cb (evs AND evt) fd s of
                       Throw e s' \<Rightarrow> (Raised e s', calls @ [(cb, fd)])
                     | Done s' \<Rightarrow> dispatchEvents run evs fd evts s' (calls @ [(cb, fd)])))
          else dispatchEvents run evs fd evts s calls)"

text \<open>The outer loop over the reported events.\<close>

fun waitLoop ::
  "'cb runner \<Rightarrow> epoll_event list \<Rightarrow> 'cb Epoll \<Rightarrow> ('cb \<times> int) list
     \<Rightarrow> 'cb Epoll outcome \<times> ('cb \<times> int) list" where
  "waitLoop run [] s calls = (Done s, calls)"
| "waitLoop run (e # es) s calls =
     (case dispatchEvents run (events e) (data_fd e) allEventTypes s calls of
        (Returned s', calls') \<Rightarrow> (Done s', calls')
      | (Raised err s', calls') \<Rightarrow> (Throw err s', calls')
      | (Completed s', calls') \<Rightarrow>
          waitLoop run es
            (if events e AND (EPOLLRDHUP OR EPOLLHUP) \<noteq> 0
             then removeDescriptor s' (data_fd e) else s')
            calls')"

text \<open>
  \<open>waitForEvents(timeout)\<close>: \<open>reported\<close> is what \<open>epoll_wait\<close> wrote to the buffer, its
  first \<open>numOfEvents\<close> entries (none when it returned 0 or -1; the kernel writes at most
  \<open>_maxEventsNum = 10\<close>).  The result is the outcome and the callbacks invoked, in order.
  The loop copies \<open>events\<close> and \<open>fd\<close> of an entry before it dispatches; a callback
  that called \<open>waitForEvents\<close> itself would overwrite the buffer under the loop, and
  is not covered.
\<close>

definition waitForEvents ::
  "'cb runner \<Rightarrow> 'cb Epoll \<Rightarrow> int \<Rightarrow> epoll_event list
     \<Rightarrow> 'cb Epoll outcome \<times> ('cb \<times> int) list" where
  "waitForEvents run s timeout reported =
     waitLoop run reported (s\<lparr>syscalls := syscalls s @ [EpollWait timeout]\<rparr>) []"

text \<open>The state after \<open>n\<close> calls \<open>addDescriptor(fd)\<close> in a row, thrown or not.\<close>

fun addDescriptorTimes :: "kernel \<Rightarrow> int \<Rightarrow> nat \<Rightarrow> 'cb Epoll \<Rightarrow> 'cb Epoll" where
  "addDescriptorTimes K fd 0 s = s"
| "addDescriptorTimes K fd (Suc n) s = addDescriptorTimes K fd n (stateOf (addDescriptor K s fd))"

subsection \<open>The subscription as the specification words it\<close>

text \<open>
  The specification's recomputation algorithm: the union of the six categories that hold a
  non-empty handler, with the edge-trigger flag unioned in for an edge-triggered reactor;
  an "add" call for an entry that is not initialized, a "modify" call otherwise.
\<close>

definition specSubscriptionMask :: "bool \<Rightarrow> 'cb MonitoredDescriptor \<Rightarrow> u32" where
  "specSubscriptionMask edge md =
     (if IN_handler md \<noteq> None then EPOLLIN else 0) OR
     (if OUT_handler md \<noteq> None then EPOLLOUT else 0) OR
     (if RDHUP_handler md \<noteq> None then EPOLLRDHUP else 0) OR
     (if PRI_handler md \<noteq> None then EPOLLPRI else 0) OR
     (if ERR_handler md \<noteq> None then EPOLLERR else 0) OR
     (if HUP_handler md \<noteq> None then EPOLLHUP else 0) OR
     (if edge then EPOLLET else 0)"

definition specSubscriptionCall :: "bool \<Rightarrow> 'cb MonitoredDescriptor \<Rightarrow> syscall" where
  "specSubscriptionCall edge md =
     (if isInitialized md
      then EpollCtlMod (monitoredFd md) (specSubscriptionMask edge md)
      else EpollCtlAdd (monitoredFd md) (specSubscriptionMask edge md))"

subsection \<open>Concrete reactors, kernels and callbacks\<close>

text \<open>
  Two callbacks in the style of the demo server: \<open>LogOnly\<close> leaves the reactor alone (as
  \<open>onClientDisconnect\<close> does), \<open>CloseSelf\<close> calls \<open>epoll.removeDescriptor(fd)\<close> on its
  own descriptor.  The third is a function object with a member of its own,
  \<open>struct Count { unsigned n; void operator()(int) { ++n; } }\<close>: a call increments the
  counter of the copy that is called.
\<close>

datatype demo_cb = LogOnly | CloseSelf | Count nat

fun demo_run :: "demo_cb runner" where
  "demo_run LogOnly slot fd s = Done s"
| "demo_run CloseSelf slot fd s = Done (removeDescriptor s fd)"
| "demo_run (Count n) slot fd s =
     Done (case monitoredFds s fd of
             None \<Rightarrow> s
           | Some md \<Rightarrow>
               s\<lparr>monitoredFds :=
                    (monitoredFds s)(fd \<mapsto> setHandler md slot (Some (Count (Suc n))))\<rparr>)"

text \<open>Every callback read as one that only logs.\<close>

definition logRun :: "demo_cb runner" where
  "logRun cb slot fd s = Done s"

definition kernelOk :: kernel where
  "kernelOk h c = True"

definition kernelDown :: kernel where
  "kernelDown h c = False"

text \<open>A level-triggered and an edge-triggered reactor as \<open>newEpoll 3\<close> builds them.\<close>

definition levelReactor :: "demo_cb Epoll" where
  "levelReactor =
     \<lparr>monitoredFds = Map.empty, epollFd = 3, isEdgeTriggered = False, syscalls = []\<rparr>"

definition edgeReactor :: "demo_cb Epoll" where
  "edgeReactor =
     \<lparr>monitoredFds = Map.empty, epollFd = 3, isEdgeTriggered = True, syscalls = []\<rparr>"

text \<open>Descriptor 7 added, no handler yet.\<close>

definition withFd7 :: "demo_cb Epoll" where
  "withFd7 = stateOf (addDescriptor kernelOk levelReactor 7)"

text \<open>Descriptor 5 with a readable-handler only, subscribed with the kernel.\<close>

definition readerOnly :: "demo_cb Epoll" where
  "readerOnly =
     stateOf (addEventHandler kernelOk (stateOf (addDescriptor kernelOk levelReactor 5))
       5 EPOLLIN (Some LogOnly))"

text \<open>
  Descriptors 5 and 6, each with a readable-handler: the one of 5 closes its descriptor,
  the one of 6 only logs.
\<close>

definition twoClients :: "demo_cb Epoll" where
  "twoClients =
     stateOf (addEventHandler kernelOk
       (stateOf (addDescriptor kernelOk
         (stateOf (addEventHandler kernelOk (stateOf (addDescriptor kernelOk levelReactor 5))
            5 EPOLLIN (Some CloseSelf))) 6))
       6 EPOLLIN (Some LogOnly))"

text \<open>Descriptor 7 with a fresh counter installed for reading and for writing at once.\<close>

definition countBoth :: "demo_cb Epoll" where
  "countBoth =
     stateOf (addEventHandler kernelOk withFd7 7 (EPOLLIN OR EPOLLOUT) (Some (Count 0)))"

text \<open>An entry with all six slots filled.\<close>

definition fullEntry :: "demo_cb MonitoredDescriptor" where
  "fullEntry =
     \<lparr>isInitialized = True, monitoredFd = 7,
      IN_handler = Some LogOnly, OUT_handler = Some LogOnly, RDHUP_handler = Some LogOnly,
      PRI_handler = Some LogOnly, ERR_handler = Some LogOnly, HUP_handler = Some LogOnly\<rparr>"

section \<open>Properties\<close>

subsection \<open>The event flags and the handler slots\<close>

lemmas evt_defs =
  EPOLLIN_def EPOLLPRI_def EPOLLOUT_def EPOLLERR_def EPOLLHUP_def EPOLLRDHUP_def EPOLLET_def

lemma setHandler_simps:
  "setHandler md EPOLLIN h = md\<lparr>IN_handler := h\<rparr>"
  "setHandler md EPOLLOUT h = md\<lparr>OUT_handler := h\<rparr>"
  "setHandler md EPOLLRDHUP h = md\<lparr>RDHUP_handler := h\<rparr>"
  "setHandler md EPOLLPRI h = md\<lparr>PRI_handler := h\<rparr>"
  "setHandler md EPOLLERR h = md\<lparr>ERR_handler := h\<rparr>"
  "setHandler md EPOLLHUP h = md\<lparr>HUP_handler := h\<rparr>"
  by (simp_all add: setHandler_def evt_defs)

lemma hasHandler_simps:
  "hasHandler md EPOLLIN = (IN_handler md \<noteq> None)"
  "hasHandler md EPOLLOUT = (OUT_handler md \<noteq> None)"
  "hasHandler md EPOLLRDHUP = (RDHUP_handler md \<noteq> None)"
  "hasHandler md EPOLLPRI = (PRI_handler md \<noteq> None)"
  "hasHandler md EPOLLERR = (ERR_handler md \<noteq> None)"
  "hasHandler md EPOLLHUP = (HUP_handler md \<noteq> None)"
  "hasHandler md 0 = False"
  by (simp_all add: hasHandler_def evt_defs)

lemma getHandler_simps:
  "getHandler md EPOLLIN = Inr (IN_handler md)"
  "getHandler md EPOLLOUT = Inr (OUT_handler md)"
  "getHandler md EPOLLRDHUP = Inr (RDHUP_handler md)"
  "getHandler md EPOLLPRI = Inr (PRI_handler md)"
  "getHandler md EPOLLERR = Inr (ERR_handler md)"
  "getHandler md EPOLLHUP = Inr (HUP_handler md)"
  by (simp_all add: getHandler_def evt_defs)

text \<open>Each event type is a single bit, so masking with it gives zero or the type itself.\<close>

lemma and_bit_cases: "(et::u32) AND 2 ^ n = 0 \<or> et AND 2 ^ n = 2 ^ n"
proof (cases "bit et n")
  case True
  have "et AND 2 ^ n = 2 ^ n"
    using True by (intro bit_eqI) (auto simp: bit_and_iff bit_exp_iff)
  then show ?thesis ..
next
  case False
  then have "et AND 2 ^ n = 0" by (simp add: and_exp_eq_0_iff_not_bit)
  then show ?thesis ..
qed

lemma and_evt_cases:
  "evt \<in> set allEventTypes \<Longrightarrow> et AND evt = 0 \<or> et AND evt = evt"
  using and_bit_cases [of et 0] and_bit_cases [of et 1] and_bit_cases [of et 2]
    and_bit_cases [of et 3] and_bit_cases [of et 4] and_bit_cases [of et 13]
  by (auto simp: allEventTypes_def evt_defs)

lemma installHandlers_unfold:
  "installHandlers md et h =
     md\<lparr>IN_handler := (if et AND EPOLLIN \<noteq> 0 then h else IN_handler md),
        OUT_handler := (if et AND EPOLLOUT \<noteq> 0 then h else OUT_handler md),
        RDHUP_handler := (if et AND EPOLLRDHUP \<noteq> 0 then h else RDHUP_handler md),
        PRI_handler := (if et AND EPOLLPRI \<noteq> 0 then h else PRI_handler md),
        ERR_handler := (if et AND EPOLLERR \<noteq> 0 then h else ERR_handler md),
        HUP_handler := (if et AND EPOLLHUP \<noteq> 0 then h else HUP_handler md)\<rparr>"
  by (simp add: installHandlers_def allEventTypes_def setHandler_simps)

lemma clear_step:
  assumes "evt \<in> set allEventTypes"
  shows "(if hasHandler m (et AND evt) then setHandler m (et AND evt) None else m) =
         (if et AND evt \<noteq> 0 then setHandler m evt None else m)"
proof (cases "et AND evt = 0")
  case True
  then show ?thesis by (simp add: hasHandler_simps)
next
  case False
  with and_evt_cases [OF assms, of et] have eq: "et AND evt = evt" by blast
  have "\<not> hasHandler m evt \<Longrightarrow> setHandler m evt None = m"
    using assms by (auto simp: allEventTypes_def hasHandler_simps setHandler_simps)
  with False eq show ?thesis by auto
qed

lemma clearHandlers_unfold:
  "clearHandlers md et =
     md\<lparr>IN_handler := (if et AND EPOLLIN \<noteq> 0 then None else IN_handler md),
        OUT_handler := (if et AND EPOLLOUT \<noteq> 0 then None else OUT_handler md),
        RDHUP_handler := (if et AND EPOLLRDHUP \<noteq> 0 then None else RDHUP_handler md),
        PRI_handler := (if et AND EPOLLPRI \<noteq> 0 then None else PRI_handler md),
        ERR_handler := (if et AND EPOLLERR \<noteq> 0 then None else ERR_handler md),
        HUP_handler := (if et AND EPOLLHUP \<noteq> 0 then None else HUP_handler md)\<rparr>"
  by (simp add: clearHandlers_def allEventTypes_def clear_step [unfolded allEventTypes_def]
      setHandler_simps)

subsection \<open>The subscription loop against the specification's union\<close>

lemma reloadStep_alt:
  "(firstEvt \<longrightarrow> res = 0) \<Longrightarrow>
   reloadStep md (res, firstEvt) evt =
     (res OR (if hasHandler md evt then evt else 0), firstEvt \<and> \<not> hasHandler md evt)"
  by (simp add: reloadStep_def)

lemma reloadLoop_alt:
  "(firstEvt \<longrightarrow> res = 0) \<Longrightarrow>
   foldl (reloadStep md) (res, firstEvt) evts =
     (foldl (\<lambda>a e. a OR (if hasHandler md e then e else 0)) res evts,
      firstEvt \<and> (\<forall>e\<in>set evts. \<not> hasHandler md e))"
proof (induction evts arbitrary: res firstEvt)
  case Nil
  then show ?case by simp
next
  case (Cons e evts)
  have "(firstEvt \<and> \<not> hasHandler md e) \<longrightarrow> res OR (if hasHandler md e then e else 0) = 0"
    using Cons.prems by simp
  from Cons.IH [OF this] Cons.prems show ?case
    by (simp add: reloadStep_alt)
qed

lemma resultingEvents_spec: "resultingEvents edge md = specSubscriptionMask edge md"
proof -
  have loop: "foldl (reloadStep md) (0, True) allEventTypes =
     (foldl (\<lambda>a e. a OR (if hasHandler md e then e else 0)) 0 allEventTypes,
      \<forall>e\<in>set allEventTypes. \<not> hasHandler md e)"
    using reloadLoop_alt [of True 0 md allEventTypes] by simp
  have zero: "(\<forall>e\<in>set allEventTypes. \<not> hasHandler md e) \<Longrightarrow>
     foldl (\<lambda>a e. a OR (if hasHandler md e then e else 0)) 0 allEventTypes = 0"
    by (simp add: allEventTypes_def)
  have union: "foldl (\<lambda>a e. a OR (if hasHandler md e then e else 0)) 0 allEventTypes =
     specSubscriptionMask False md"
    by (simp add: allEventTypes_def specSubscriptionMask_def hasHandler_simps ac_simps)
  have edge: "specSubscriptionMask True md = specSubscriptionMask False md OR EPOLLET"
    by (simp add: specSubscriptionMask_def ac_simps)
  show ?thesis
  proof (cases edge)
    case False
    then show ?thesis by (simp add: resultingEvents_def loop union)
  next
    case True
    then show ?thesis
      using zero by (auto simp: resultingEvents_def loop union [symmetric] edge)
  qed
qed

lemma reloadEventHandlers_eq:
  "reloadEventHandlers K s key md =
     (if K (syscalls s) (specSubscriptionCall (isEdgeTriggered s) md)
      then Done (if isInitialized md
                 then s\<lparr>syscalls := syscalls s @ [specSubscriptionCall (isEdgeTriggered s) md]\<rparr>
                 else s\<lparr>syscalls := syscalls s @ [specSubscriptionCall (isEdgeTriggered s) md],
                        monitoredFds := (monitoredFds s)(key \<mapsto> md\<lparr>isInitialized := True\<rparr>)\<rparr>)
      else Throw (if isInitialized md then EpollCtlModifyFailed else EpollCtlAddFailed)
             (s\<lparr>syscalls := syscalls s @ [specSubscriptionCall (isEdgeTriggered s) md]\<rparr>))"
  by (simp add: reloadEventHandlers_def epollCtlAdd_def epollCtlModify_def Let_def
      specSubscriptionCall_def resultingEvents_spec)


lemma isInitialized_installHandlers [simp]:
  "isInitialized (installHandlers md eventType h) = isInitialized md"
  by (simp add: installHandlers_unfold)

lemma isInitialized_clearHandlers [simp]:
  "isInitialized (clearHandlers md eventType) = isInitialized md"
  by (simp add: clearHandlers_unfold)

lemma monitoredFd_installHandlers [simp]:
  "monitoredFd (installHandlers md eventType h) = monitoredFd md"
  by (simp add: installHandlers_unfold)

lemma monitoredFd_clearHandlers [simp]:
  "monitoredFd (clearHandlers md eventType) = monitoredFd md"
  by (simp add: clearHandlers_unfold)

lemma addEventHandler_registered:
  "monitoredFds s fd = Some md \<Longrightarrow>
   addEventHandler K s fd eventType h =
     reloadEventHandlers K (s\<lparr>monitoredFds := (monitoredFds s)(fd \<mapsto> installHandlers md eventType h)\<rparr>)
       fd (installHandlers md eventType h)"
  by (simp add: addEventHandler_def Let_def)

lemma removeEventHandler_registered:
  "monitoredFds s fd = Some md \<Longrightarrow>
   removeEventHandler K s fd eventType =
     reloadEventHandlers K (s\<lparr>monitoredFds := (monitoredFds s)(fd \<mapsto> clearHandlers md eventType)\<rparr>)
       fd (clearHandlers md eventType)"
  by (simp add: removeEventHandler_def Let_def)

lemma addEventHandler_entry:
  assumes "monitoredFds s fd = Some md"
  shows "monitoredFds (stateOf (addEventHandler K s fd et h)) fd =
      Some ((installHandlers md et h)
              \<lparr>isInitialized := isInitialized md \<or>
                 K (syscalls s) (specSubscriptionCall (isEdgeTriggered s)
                                   (installHandlers md et h))\<rparr>)"
  by (simp add: addEventHandler_registered [OF assms] reloadEventHandlers_eq)

lemma removeEventHandler_entry:
  assumes "monitoredFds s fd = Some md"
  shows "monitoredFds (stateOf (removeEventHandler K s fd et)) fd =
      Some ((clearHandlers md et)
              \<lparr>isInitialized := isInitialized md \<or>
                 K (syscalls s) (specSubscriptionCall (isEdgeTriggered s)
                                   (clearHandlers md et))\<rparr>)"
  by (simp add: removeEventHandler_registered [OF assms] reloadEventHandlers_eq)

lemma installed_slots:
  "\<forall>evt\<in>set allEventTypes. et AND evt \<noteq> 0 \<longrightarrow>
      hasHandler ((installHandlers md et (Some cb))\<lparr>isInitialized := b\<rparr>) evt \<and>
      getHandler ((installHandlers md et (Some cb))\<lparr>isInitialized := b\<rparr>) evt = Inr (Some cb)"
  by (simp add: allEventTypes_def hasHandler_simps getHandler_simps installHandlers_unfold)

lemma addEventHandler_installs_aux:
  assumes "monitoredFds s fd = Some md"
  shows "\<exists>md'. monitoredFds (stateOf (addEventHandler K s fd (EPOLLIN OR EPOLLOUT) (Some cb))) fd
          = Some md' \<and> hasHandler md' EPOLLIN \<and> hasHandler md' EPOLLOUT \<and>
        getHandler md' EPOLLIN = Inr (Some cb) \<and> getHandler md' EPOLLOUT = Inr (Some cb)"
proof -
  have inout: "(EPOLLIN OR EPOLLOUT) AND EPOLLIN \<noteq> 0" "(EPOLLIN OR EPOLLOUT) AND EPOLLOUT \<noteq> 0"
    by (simp_all add: evt_defs)
  have mem: "EPOLLIN \<in> set allEventTypes" "EPOLLOUT \<in> set allEventTypes"
    by (simp_all add: allEventTypes_def)
  show ?thesis
    using installed_slots [where et = "EPOLLIN OR EPOLLOUT" and md = md and cb = cb] inout mem
    by (simp add: addEventHandler_entry [OF assms])
qed

lemma subscription_recomputed_aux:
  assumes "monitoredFds s fd = Some md"
  shows "syscalls (stateOf (addEventHandler K s fd et h)) =
      syscalls s @ [specSubscriptionCall (isEdgeTriggered s) (installHandlers md et h)]"
    and "syscalls (stateOf (removeEventHandler K s fd et)) =
      syscalls s @ [specSubscriptionCall (isEdgeTriggered s) (clearHandlers md et)]"
  by (simp_all add: addEventHandler_registered [OF assms] removeEventHandler_registered [OF assms]
      reloadEventHandlers_eq)

subsection \<open>The registry under \<open>addDescriptor\<close> and \<open>removeDescriptor\<close>\<close>

lemma addDescriptor_registry:
  "monitoredFds (stateOf (addDescriptor K s fd)) =
     (case monitoredFds s fd of
        None \<Rightarrow> (monitoredFds s)(fd \<mapsto> newMonitoredDescriptor fd)
      | Some md \<Rightarrow> monitoredFds s)"
  by (simp add: addDescriptor_def setNonBlocking_def Let_def split: option.splits)

lemma addDescriptor_mode [simp]:
  "isEdgeTriggered (stateOf (addDescriptor K s fd)) = isEdgeTriggered s"
  by (simp add: addDescriptor_def setNonBlocking_def Let_def split: option.splits)

lemma removeDescriptor_registry:
  "monitoredFds (removeDescriptor s fd) = (monitoredFds s)(fd := None)"
  by (auto simp: removeDescriptor_def epollCtlDelete_def Let_def)

lemma removeDescriptor_mode [simp]:
  "isEdgeTriggered (removeDescriptor s fd) = isEdgeTriggered s"
  by (simp add: removeDescriptor_def epollCtlDelete_def Let_def)

lemma addDescriptorTimes_present:
  "monitoredFds s fd = Some md \<Longrightarrow> monitoredFds (addDescriptorTimes K fd n s) = monitoredFds s"
  by (induction n arbitrary: s) (simp_all add: addDescriptor_registry)

text \<open>Adding a descriptor that is absent, and subscribing it.\<close>

lemma readd_absent:
  fixes s1 :: "'a Epoll"
  assumes gone: "monitoredFds s1 fd = None"
  shows "monitoredFds (stateOf (addDescriptor K1 s1 fd)) fd = Some (newMonitoredDescriptor fd)"
    and "syscalls (stateOf (addEventHandler K2 (stateOf (addDescriptor K1 s1 fd)) fd eventType h)) =
           syscalls (stateOf (addDescriptor K1 s1 fd)) @
             [EpollCtlAdd fd (resultingEvents (isEdgeTriggered s1)
                (installHandlers (newMonitoredDescriptor fd) eventType h))]"
    and "syscalls (stateOf (removeEventHandler K2 (stateOf (addDescriptor K1 s1 fd)) fd eventType)) =
           syscalls (stateOf (addDescriptor K1 s1 fd)) @
             [EpollCtlAdd fd (resultingEvents (isEdgeTriggered s1)
                (clearHandlers (newMonitoredDescriptor fd :: 'a MonitoredDescriptor) eventType))]"
    and "\<exists>md'. monitoredFds (stateOf (addEventHandler K2 (stateOf (addDescriptor K1 s1 fd)) fd
                     eventType h)) fd = Some md' \<and>
            isInitialized md' =
              K2 (syscalls (stateOf (addDescriptor K1 s1 fd)))
                (EpollCtlAdd fd (resultingEvents (isEdgeTriggered s1)
                   (installHandlers (newMonitoredDescriptor fd) eventType h)))"
proof -
  let ?s2 = "stateOf (addDescriptor K1 s1 fd)"
  show fresh: "monitoredFds ?s2 fd = Some (newMonitoredDescriptor fd)"
    by (simp add: addDescriptor_registry gone)
  have flag: "\<not> isInitialized (newMonitoredDescriptor fd :: 'a MonitoredDescriptor)"
    "monitoredFd (newMonitoredDescriptor fd :: 'a MonitoredDescriptor) = fd"
    by (simp_all add: newMonitoredDescriptor_def)
  have call: "specSubscriptionCall e m = EpollCtlAdd fd (resultingEvents e m)"
    if "\<not> isInitialized m" "monitoredFd m = fd" for e and m :: "'a MonitoredDescriptor"
    using that by (simp add: specSubscriptionCall_def resultingEvents_spec)
  have c1: "specSubscriptionCall e (installHandlers (newMonitoredDescriptor fd) eventType h)
      = EpollCtlAdd fd (resultingEvents e
          (installHandlers (newMonitoredDescriptor fd) eventType h))" for e
    by (rule call) (simp_all add: flag)
  have c2: "specSubscriptionCall e (clearHandlers (newMonitoredDescriptor fd :: 'a MonitoredDescriptor) eventType)
      = EpollCtlAdd fd (resultingEvents e
          (clearHandlers (newMonitoredDescriptor fd :: 'a MonitoredDescriptor) eventType))" for e
    by (rule call) (simp_all add: flag)
  show "syscalls (stateOf (addEventHandler K2 ?s2 fd eventType h)) =
           syscalls ?s2 @
             [EpollCtlAdd fd (resultingEvents (isEdgeTriggered s1)
                (installHandlers (newMonitoredDescriptor fd) eventType h))]"
    by (simp add: subscription_recomputed_aux [OF fresh] c1)
  show "syscalls (stateOf (removeEventHandler K2 ?s2 fd eventType)) =
           syscalls ?s2 @
             [EpollCtlAdd fd (resultingEvents (isEdgeTriggered s1)
                (clearHandlers (newMonitoredDescriptor fd :: 'a MonitoredDescriptor) eventType))]"
    by (simp add: subscription_recomputed_aux [OF fresh] c2)
  show "\<exists>md'. monitoredFds (stateOf (addEventHandler K2 ?s2 fd eventType h)) fd = Some md' \<and>
            isInitialized md' =
              K2 (syscalls ?s2)
                (EpollCtlAdd fd (resultingEvents (isEdgeTriggered s1)
                   (installHandlers (newMonitoredDescriptor fd) eventType h)))"
    by (simp add: addEventHandler_entry [OF fresh] flag c1)
qed

subsection \<open>The concrete reactors, evaluated\<close>

text \<open>The reactor \<open>withFd7\<close>, evaluated.\<close>

lemma withFd7_entry: "monitoredFds withFd7 7 = Some (newMonitoredDescriptor 7)"
  by (simp add: withFd7_def addDescriptor_def levelReactor_def)

lemma withFd7_fields: "syscalls withFd7 = []" "isEdgeTriggered withFd7 = False"
  by (simp_all add: withFd7_def addDescriptor_def levelReactor_def)

text \<open>The reactor \<open>readerOnly\<close>, evaluated.\<close>

lemma readerOnly_entry:
  "monitoredFds readerOnly 5 =
     Some ((newMonitoredDescriptor 5)\<lparr>IN_handler := Some LogOnly, isInitialized := True\<rparr>)"
proof -
  have reg: "monitoredFds (stateOf (addDescriptor kernelOk levelReactor 5)) 5
      = Some (newMonitoredDescriptor 5)"
    by (simp add: addDescriptor_registry levelReactor_def)
  have inst: "installHandlers (newMonitoredDescriptor 5) EPOLLIN (Some LogOnly) =
      (newMonitoredDescriptor 5)\<lparr>IN_handler := Some LogOnly\<rparr>"
    by (simp add: installHandlers_unfold newMonitoredDescriptor_def evt_defs)
  show ?thesis
    by (simp add: readerOnly_def addEventHandler_entry [OF reg] inst kernelOk_def)
qed

lemma readerOnly_fields:
  "syscalls readerOnly = [EpollCtlAdd 5 EPOLLIN]" "isEdgeTriggered readerOnly = False"
  "dom (monitoredFds readerOnly) = {5}"
proof -
  have inst: "installHandlers (newMonitoredDescriptor 5) EPOLLIN (Some LogOnly) =
      (newMonitoredDescriptor 5)\<lparr>IN_handler := Some LogOnly\<rparr>"
    by (simp add: installHandlers_unfold newMonitoredDescriptor_def evt_defs)
  have call: "specSubscriptionCall False
      ((newMonitoredDescriptor 5 :: demo_cb MonitoredDescriptor)\<lparr>IN_handler := Some LogOnly\<rparr>)
      = EpollCtlAdd 5 EPOLLIN"
    by (simp add: specSubscriptionCall_def specSubscriptionMask_def newMonitoredDescriptor_def)
  have flag: "\<not> isInitialized (newMonitoredDescriptor 5 :: demo_cb MonitoredDescriptor)"
    by (simp add: newMonitoredDescriptor_def)
  note unfolded = readerOnly_def addDescriptor_def addEventHandler_def levelReactor_def Let_def
    reloadEventHandlers_eq kernelOk_def inst call flag
  show "syscalls readerOnly = [EpollCtlAdd 5 EPOLLIN]"
    by (simp add: unfolded)
  show "isEdgeTriggered readerOnly = False"
    by (simp add: unfolded)
  show "dom (monitoredFds readerOnly) = {5}"
    by (simp add: unfolded)
qed

lemma readerOnly_eq:
  "readerOnly =
     \<lparr>monitoredFds =
        [5 \<mapsto> (newMonitoredDescriptor 5)\<lparr>IN_handler := Some LogOnly, isInitialized := True\<rparr>],
      epollFd = 3, isEdgeTriggered = False, syscalls = [EpollCtlAdd 5 EPOLLIN]\<rparr>"
proof -
  have inst: "installHandlers (newMonitoredDescriptor 5) EPOLLIN (Some LogOnly) =
      (newMonitoredDescriptor 5)\<lparr>IN_handler := Some LogOnly\<rparr>"
    by (simp add: installHandlers_unfold newMonitoredDescriptor_def evt_defs)
  have call: "specSubscriptionCall False
      ((newMonitoredDescriptor 5 :: demo_cb MonitoredDescriptor)\<lparr>IN_handler := Some LogOnly\<rparr>)
      = EpollCtlAdd 5 EPOLLIN"
    by (simp add: specSubscriptionCall_def specSubscriptionMask_def newMonitoredDescriptor_def)
  have flag: "\<not> isInitialized (newMonitoredDescriptor 5 :: demo_cb MonitoredDescriptor)"
    by (simp add: newMonitoredDescriptor_def)
  show ?thesis
    by (simp add: readerOnly_def addDescriptor_def addEventHandler_def levelReactor_def Let_def
    reloadEventHandlers_eq kernelOk_def inst call flag)
qed

text \<open>The reactor \<open>twoClients\<close>, evaluated, and the flags masked with each other.\<close>

lemma twoClients_eq:
  "twoClients =
     \<lparr>monitoredFds =
        [5 \<mapsto> (newMonitoredDescriptor 5)\<lparr>IN_handler := Some CloseSelf, isInitialized := True\<rparr>,
         6 \<mapsto> (newMonitoredDescriptor 6)\<lparr>IN_handler := Some LogOnly, isInitialized := True\<rparr>],
      epollFd = 3, isEdgeTriggered = False,
      syscalls = [EpollCtlAdd 5 EPOLLIN, EpollCtlAdd 6 EPOLLIN]\<rparr>"
proof -
  have inst: "installHandlers (newMonitoredDescriptor k) EPOLLIN (Some c) =
      (newMonitoredDescriptor k)\<lparr>IN_handler := Some c\<rparr>" for k and c :: demo_cb
    by (simp add: installHandlers_unfold newMonitoredDescriptor_def evt_defs)
  have call: "specSubscriptionCall False
      ((newMonitoredDescriptor k :: demo_cb MonitoredDescriptor)\<lparr>IN_handler := Some c\<rparr>)
      = EpollCtlAdd k EPOLLIN" for k c
    by (simp add: specSubscriptionCall_def specSubscriptionMask_def newMonitoredDescriptor_def)
  have flag: "\<not> isInitialized (newMonitoredDescriptor k :: demo_cb MonitoredDescriptor)" for k
    by (simp add: newMonitoredDescriptor_def)
  show ?thesis
    by (simp add: twoClients_def addDescriptor_def addEventHandler_def levelReactor_def Let_def
    reloadEventHandlers_eq kernelOk_def inst call flag)
qed

lemma and_flags:
  "EPOLLIN AND EPOLLIN = EPOLLIN" "EPOLLIN AND EPOLLOUT = 0" "EPOLLIN AND EPOLLRDHUP = 0"
  "EPOLLIN AND EPOLLPRI = 0" "EPOLLIN AND EPOLLERR = 0" "EPOLLIN AND EPOLLHUP = 0"
  "EPOLLHUP AND EPOLLIN = 0" "EPOLLHUP AND EPOLLOUT = 0" "EPOLLHUP AND EPOLLRDHUP = 0"
  "EPOLLHUP AND EPOLLPRI = 0" "EPOLLHUP AND EPOLLERR = 0" "EPOLLHUP AND EPOLLHUP = EPOLLHUP"
  "EPOLLIN AND (EPOLLRDHUP OR EPOLLHUP) = 0" "EPOLLHUP AND (EPOLLRDHUP OR EPOLLHUP) \<noteq> 0"
  "EPOLLHUP \<noteq> 0" "EPOLLIN \<noteq> 0"
  by (simp_all add: evt_defs)

text \<open>The reactor \<open>countBoth\<close>, evaluated.\<close>

lemma countBoth_eq:
  "countBoth =
     \<lparr>monitoredFds =
        [7 \<mapsto> (newMonitoredDescriptor 7)
                 \<lparr>IN_handler := Some (Count 0), OUT_handler := Some (Count 0),
                  isInitialized := True\<rparr>],
      epollFd = 3, isEdgeTriggered = False,
      syscalls = [EpollCtlAdd 7 (EPOLLIN OR EPOLLOUT)]\<rparr>"
proof -
  have inst: "installHandlers (newMonitoredDescriptor 7) (EPOLLIN OR EPOLLOUT) (Some (Count 0)) =
      (newMonitoredDescriptor 7)\<lparr>IN_handler := Some (Count 0), OUT_handler := Some (Count 0)\<rparr>"
    by (simp add: installHandlers_unfold newMonitoredDescriptor_def evt_defs)
  have call: "specSubscriptionCall False
      ((newMonitoredDescriptor 7 :: demo_cb MonitoredDescriptor)
         \<lparr>IN_handler := Some (Count 0), OUT_handler := Some (Count 0)\<rparr>)
      = EpollCtlAdd 7 (EPOLLIN OR EPOLLOUT)"
    by (simp add: specSubscriptionCall_def specSubscriptionMask_def newMonitoredDescriptor_def)
  have flag: "\<not> isInitialized (newMonitoredDescriptor 7 :: demo_cb MonitoredDescriptor)"
    by (simp add: newMonitoredDescriptor_def)
  show ?thesis
    by (simp add: countBoth_def withFd7_def addDescriptor_def addEventHandler_def
        levelReactor_def Let_def reloadEventHandlers_eq kernelOk_def inst call flag)
qed

lemma and_flags_inout:
  "(EPOLLIN OR EPOLLOUT) AND EPOLLIN = EPOLLIN" "(EPOLLIN OR EPOLLOUT) AND EPOLLOUT = EPOLLOUT"
  "(EPOLLIN OR EPOLLOUT) AND EPOLLRDHUP = 0" "(EPOLLIN OR EPOLLOUT) AND EPOLLPRI = 0"
  "(EPOLLIN OR EPOLLOUT) AND EPOLLERR = 0" "(EPOLLIN OR EPOLLOUT) AND EPOLLHUP = 0"
  "(EPOLLIN OR EPOLLOUT) AND (EPOLLRDHUP OR EPOLLHUP) = 0"
  by (simp_all add: evt_defs)

text \<open>The slots of an entry are apart: writing one leaves the others.\<close>

lemma slots_apart:
  "\<forall>evt\<in>set allEventTypes. \<forall>evt'\<in>set allEventTypes. evt' \<noteq> evt \<longrightarrow>
     getHandler (setHandler m evt h') evt' = getHandler m evt'"
  by (simp add: allEventTypes_def setHandler_simps getHandler_simps)

lemma installed_any:
  "\<forall>evt\<in>set allEventTypes.
      getHandler ((installHandlers md et h)\<lparr>isInitialized := b\<rparr>) evt
        = (if et AND evt \<noteq> 0 then Inr h else getHandler md evt) \<and>
      hasHandler ((installHandlers md et h)\<lparr>isInitialized := b\<rparr>) evt
        = (if et AND evt \<noteq> 0 then h \<noteq> None else hasHandler md evt)"
  by (simp add: allEventTypes_def hasHandler_simps getHandler_simps installHandlers_unfold)

subsection \<open>The wait loop under callbacks that leave the set of descriptors alone\<close>

lemma hasHandler_getHandler:
  "hasHandler md x \<Longrightarrow> \<exists>cb. getHandler md x = Inr (Some cb)"
  by (auto simp: hasHandler_def getHandler_def split: if_splits)

lemma dispatchEvents_quiet:
  assumes quiet: "\<forall>cb slot fd s. \<exists>s'. run cb slot fd s = Done s' \<and>
                    dom (monitoredFds s') = dom (monitoredFds s)"
  shows "fd \<in> dom (monitoredFds s) \<Longrightarrow>
     \<exists>s' calls'. dispatchEvents run evs fd evts s calls = (Completed s', calls') \<and>
        dom (monitoredFds s') = dom (monitoredFds s)"
proof (induction evts arbitrary: s calls)
  case Nil
  then show ?case by simp
next
  case (Cons evt evts)
  from Cons.prems obtain md where md: "monitoredFds s fd = Some md" by auto
  show ?case
  proof (cases "hasHandler md (evs AND evt)")
    case False
    with md Cons.IH [OF Cons.prems] show ?thesis by simp
  next
    case True
    then obtain cb where cb: "getHandler md (evs AND evt) = Inr (Some cb)"
      using hasHandler_getHandler by blast
    from quiet obtain s1 where s1: "run cb (evs AND evt) fd s = Done s1"
      "dom (monitoredFds s1) = dom (monitoredFds s)" by blast
    with Cons.prems have "fd \<in> dom (monitoredFds s1)" by simp
    from Cons.IH [OF this, of "calls @ [(cb, fd)]"] md True cb s1 show ?thesis by simp
  qed
qed

lemma dom_removeDescriptor:
  "dom (monitoredFds (removeDescriptor s fd)) = dom (monitoredFds s) - {fd}"
  by (simp add: removeDescriptor_registry)

lemma waitLoop_quiet:
  assumes quiet: "\<forall>cb slot fd s. \<exists>s'. run cb slot fd s = Done s' \<and>
                    dom (monitoredFds s') = dom (monitoredFds s)"
  shows "distinct (map data_fd es) \<Longrightarrow> data_fd ` set es \<subseteq> dom (monitoredFds s) \<Longrightarrow>
     \<exists>s' calls'. waitLoop run es s calls = (Done s', calls') \<and>
        dom (monitoredFds s') =
          dom (monitoredFds s) -
            data_fd ` {e \<in> set es. events e AND (EPOLLRDHUP OR EPOLLHUP) \<noteq> 0}"
proof (induction es arbitrary: s calls)
  case Nil
  then show ?case by simp
next
  case (Cons e es)
  let ?fd = "data_fd e"
  from Cons.prems have "?fd \<in> dom (monitoredFds s)" by simp
  from dispatchEvents_quiet [OF quiet this, of "events e" allEventTypes calls]
  obtain s1 calls1 where
    d: "dispatchEvents run (events e) ?fd allEventTypes s calls = (Completed s1, calls1)"
    and dom1: "dom (monitoredFds s1) = dom (monitoredFds s)" by blast
  let ?s2 = "if events e AND (EPOLLRDHUP OR EPOLLHUP) \<noteq> 0 then removeDescriptor s1 ?fd else s1"
  have dom2: "dom (monitoredFds ?s2) =
      dom (monitoredFds s) - (if events e AND (EPOLLRDHUP OR EPOLLHUP) \<noteq> 0 then {?fd} else {})"
    by (simp add: dom_removeDescriptor dom1)
  from Cons.prems have "?fd \<notin> set (map data_fd es)" by simp
  then have notin: "\<forall>x\<in>set es. data_fd x \<noteq> ?fd"
    by (metis image_eqI set_map)
  from Cons.prems have dist: "distinct (map data_fd es)"
    and sub: "data_fd ` set es \<subseteq> dom (monitoredFds s)" by simp_all
  from notin sub have sub2: "data_fd ` set es \<subseteq> dom (monitoredFds ?s2)"
    unfolding dom2 by auto
  from Cons.IH [OF dist sub2, of calls1] obtain s' calls' where
    w: "waitLoop run es ?s2 calls1 = (Done s', calls')"
    and dom': "dom (monitoredFds s') = dom (monitoredFds ?s2) -
        data_fd ` {e \<in> set es. events e AND (EPOLLRDHUP OR EPOLLHUP) \<noteq> 0}" by blast
  have "waitLoop run (e # es) s calls = (Done s', calls')"
    using d w by simp
  moreover have "dom (monitoredFds s') = dom (monitoredFds s) -
      data_fd ` {x \<in> set (e # es). events x AND (EPOLLRDHUP OR EPOLLHUP) \<noteq> 0}"
    unfolding dom' dom2 by auto
  ultimately show ?case by blast
qed

text \<open>
  Whatever the callbacks do: a wait-cycle that reports one event with a hang-up bit and
  returns leaves that descriptor out of the registry.
\<close>

lemma dispatchEvents_Returned:
  "dispatchEvents run evs fd evts s calls = (Returned s', calls') \<Longrightarrow> monitoredFds s' fd = None"
  by (induction evts arbitrary: s calls)
    (auto split: option.splits if_splits sum.splits outcome.splits)

lemma hangup_single_event:
  assumes "events e AND (EPOLLRDHUP OR EPOLLHUP) \<noteq> 0"
    and "fst (waitForEvents run s timeout [e]) = Done s'"
  shows "monitoredFds s' (data_fd e) = None"
proof -
  let ?s0 = "s\<lparr>syscalls := syscalls s @ [EpollWait timeout]\<rparr>"
  obtain r calls' where d: "dispatchEvents run (events e) (data_fd e) allEventTypes ?s0 [] = (r, calls')"
    by (cases "dispatchEvents run (events e) (data_fd e) allEventTypes ?s0 []") auto
  show ?thesis
  proof (cases r)
    case (Completed s1)
    with d assms have "s' = removeDescriptor s1 (data_fd e)"
      by (simp add: waitForEvents_def)
    then show ?thesis by (simp add: removeDescriptor_registry)
  next
    case (Returned s1)
    with d assms have "s' = s1" by (simp add: waitForEvents_def)
    moreover from d Returned have "monitoredFds s1 (data_fd e) = None"
      by (simp add: dispatchEvents_Returned)
    ultimately show ?thesis by simp
  next
    case (Raised err s1)
    with d assms show ?thesis by (simp add: waitForEvents_def)
  qed
qed

subsection \<open>Recomputing the kernel subscription\<close>

text \<open>
  C5.  The mask \<open>_reloadEventHandlers\<close> builds with its \<open>firstEvt\<close> loop is the union the
  specification describes, for any entry and either mode (\<open>EPOLLET\<close> alone for an
  edge-triggered reactor and an entry without handlers).  For a registered descriptor,
  \<open>addEventHandler\<close> and \<open>removeEventHandler\<close> each issue exactly one system call: the
  specification's call for the entry as updated, an "add" with that mask for an entry
  that is not initialized, a "modify" carrying the whole mask otherwise.  Where the kernel
  accepts the call the operation returns and the updated entry is stored marked
  initialized.
\<close>

theorem subscription_recomputed:
  assumes reg: "monitoredFds s fd = Some md"
  shows "resultingEvents edge m = specSubscriptionMask edge m \<and>
    syscalls (stateOf (addEventHandler K s fd eventType h)) =
      syscalls s @ [specSubscriptionCall (isEdgeTriggered s) (installHandlers md eventType h)] \<and>
    syscalls (stateOf (removeEventHandler K s fd eventType)) =
      syscalls s @ [specSubscriptionCall (isEdgeTriggered s) (clearHandlers md eventType)] \<and>
    (K (syscalls s) (specSubscriptionCall (isEdgeTriggered s) (installHandlers md eventType h)) \<longrightarrow>
       (\<exists>s'. addEventHandler K s fd eventType h = Done s' \<and>
          monitoredFds s' =
            (monitoredFds s)(fd \<mapsto> (installHandlers md eventType h)\<lparr>isInitialized := True\<rparr>))) \<and>
    (K (syscalls s) (specSubscriptionCall (isEdgeTriggered s) (clearHandlers md eventType)) \<longrightarrow>
       (\<exists>s'. removeEventHandler K s fd eventType = Done s' \<and>
          monitoredFds s' =
            (monitoredFds s)(fd \<mapsto> (clearHandlers md eventType)\<lparr>isInitialized := True\<rparr>)))"
proof -
  have init: "isInitialized x \<Longrightarrow> x\<lparr>isInitialized := True\<rparr> = x"
    for x :: "'a MonitoredDescriptor" by simp
  have "resultingEvents edge m = specSubscriptionMask edge m"
    by (rule resultingEvents_spec)
  moreover have "syscalls (stateOf (addEventHandler K s fd eventType h)) =
      syscalls s @ [specSubscriptionCall (isEdgeTriggered s) (installHandlers md eventType h)]"
    by (simp add: addEventHandler_registered [OF reg] reloadEventHandlers_eq)
  moreover have "syscalls (stateOf (removeEventHandler K s fd eventType)) =
      syscalls s @ [specSubscriptionCall (isEdgeTriggered s) (clearHandlers md eventType)]"
    by (simp add: removeEventHandler_registered [OF reg] reloadEventHandlers_eq)
  moreover have "K (syscalls s) (specSubscriptionCall (isEdgeTriggered s) (installHandlers md eventType h)) \<longrightarrow>
       (\<exists>s'. addEventHandler K s fd eventType h = Done s' \<and>
          monitoredFds s' =
            (monitoredFds s)(fd \<mapsto> (installHandlers md eventType h)\<lparr>isInitialized := True\<rparr>))"
    by (cases "isInitialized md")
      (simp_all add: addEventHandler_registered [OF reg] reloadEventHandlers_eq init)
  moreover have "K (syscalls s) (specSubscriptionCall (isEdgeTriggered s) (clearHandlers md eventType)) \<longrightarrow>
       (\<exists>s'. removeEventHandler K s fd eventType = Done s' \<and>
          monitoredFds s' =
            (monitoredFds s)(fd \<mapsto> (clearHandlers md eventType)\<lparr>isInitialized := True\<rparr>))"
    by (cases "isInitialized md")
      (simp_all add: removeEventHandler_registered [OF reg] reloadEventHandlers_eq init)
  ultimately show ?thesis by blast
qed

theorem subscription_recomputed_witness:
  "monitoredFds withFd7 7 = Some (newMonitoredDescriptor 7) \<and>
   resultingEvents True (newMonitoredDescriptor 7 :: demo_cb MonitoredDescriptor) = EPOLLET \<and>
   syscalls (stateOf (addEventHandler kernelOk withFd7 7 (EPOLLIN OR EPOLLHUP) (Some LogOnly)))
     = [EpollCtlAdd 7 (EPOLLIN OR EPOLLHUP)] \<and>
   syscalls (stateOf (removeEventHandler kernelOk withFd7 7 (EPOLLIN OR EPOLLHUP)))
     = [EpollCtlAdd 7 0] \<and>
   (\<exists>s'. addEventHandler kernelOk withFd7 7 (EPOLLIN OR EPOLLHUP) (Some LogOnly) = Done s' \<and>
      monitoredFds s' 7 =
        Some ((newMonitoredDescriptor 7)
                \<lparr>isInitialized := True, IN_handler := Some LogOnly, HUP_handler := Some LogOnly\<rparr>))"
  using subscription_recomputed [OF withFd7_entry, of True "newMonitoredDescriptor 7" kernelOk
      "EPOLLIN OR EPOLLHUP" "Some LogOnly"]
  by (auto simp: withFd7_entry withFd7_fields specSubscriptionCall_def specSubscriptionMask_def
      installHandlers_unfold clearHandlers_unfold newMonitoredDescriptor_def kernelOk_def
      evt_defs)


subsection \<open>A kernel call that fails\<close>

text \<open>
  C3.  When the kernel refuses the subscription call of \<open>addEventHandler\<close> or of
  \<open>removeEventHandler\<close>, the operation throws the matching error
  (\<open>_epollCtlAdd\<close>'s for an entry that is not initialized, \<open>_epollCtlModify\<close>'s
  otherwise) and the registry is the one the call was issued from: the entry holds the
  slots the operation wrote before calling the kernel, and its \<open>isInitialized\<close> flag is
  what it was, so a failed "add" leaves it false.
\<close>

theorem kernel_failure_keeps_registry:
  assumes reg: "monitoredFds s fd = Some md"
  shows
    "(let md' = installHandlers md eventType h;
          c = (if isInitialized md then EpollCtlMod else EpollCtlAdd) (monitoredFd md)
                (resultingEvents (isEdgeTriggered s) md')
      in \<not> K (syscalls s) c \<longrightarrow>
           addEventHandler K s fd eventType h =
             Throw (if isInitialized md then EpollCtlModifyFailed else EpollCtlAddFailed)
               (s\<lparr>monitoredFds := (monitoredFds s)(fd \<mapsto> md'),
                  syscalls := syscalls s @ [c]\<rparr>) \<and>
           isInitialized md' = isInitialized md) \<and>
     (let md' = clearHandlers md eventType;
          c = (if isInitialized md then EpollCtlMod else EpollCtlAdd) (monitoredFd md)
                (resultingEvents (isEdgeTriggered s) md')
      in \<not> K (syscalls s) c \<longrightarrow>
           removeEventHandler K s fd eventType =
             Throw (if isInitialized md then EpollCtlModifyFailed else EpollCtlAddFailed)
               (s\<lparr>monitoredFds := (monitoredFds s)(fd \<mapsto> md'),
                  syscalls := syscalls s @ [c]\<rparr>) \<and>
           isInitialized md' = isInitialized md)"
  by (simp add: addEventHandler_registered [OF reg] removeEventHandler_registered [OF reg]
      reloadEventHandlers_eq specSubscriptionCall_def resultingEvents_spec Let_def)

theorem kernel_failure_keeps_registry_witness:
  "monitoredFds withFd7 7 = Some (newMonitoredDescriptor 7) \<and>
   addEventHandler kernelDown withFd7 7 EPOLLIN (Some LogOnly) =
     Throw EpollCtlAddFailed
       (withFd7\<lparr>monitoredFds :=
                   (monitoredFds withFd7)(7 \<mapsto> (newMonitoredDescriptor 7)\<lparr>IN_handler := Some LogOnly\<rparr>),
                 syscalls := [EpollCtlAdd 7 EPOLLIN]\<rparr>) \<and>
   \<not> isInitialized ((newMonitoredDescriptor 7 :: demo_cb MonitoredDescriptor)\<lparr>IN_handler := Some LogOnly\<rparr>) \<and>
   removeEventHandler kernelDown withFd7 7 EPOLLIN =
     Throw EpollCtlAddFailed (withFd7\<lparr>syscalls := [EpollCtlAdd 7 0]\<rparr>)"
proof -
  have inst: "installHandlers (newMonitoredDescriptor 7) EPOLLIN (Some LogOnly) =
      (newMonitoredDescriptor 7)\<lparr>IN_handler := Some LogOnly\<rparr>"
    by (simp add: installHandlers_unfold newMonitoredDescriptor_def evt_defs)
  have clr: "clearHandlers (newMonitoredDescriptor 7 :: demo_cb MonitoredDescriptor) EPOLLIN =
      newMonitoredDescriptor 7"
    by (simp add: clearHandlers_unfold newMonitoredDescriptor_def evt_defs)
  have same: "(monitoredFds withFd7)(7 \<mapsto> newMonitoredDescriptor 7) = monitoredFds withFd7"
    using withFd7_entry by (simp add: fun_upd_idem)
  have call1: "resultingEvents False
      ((newMonitoredDescriptor 7 :: demo_cb MonitoredDescriptor)\<lparr>IN_handler := Some LogOnly\<rparr>)
      = EPOLLIN"
    by (simp add: resultingEvents_spec specSubscriptionMask_def newMonitoredDescriptor_def)
  have call2: "resultingEvents False (newMonitoredDescriptor 7 :: demo_cb MonitoredDescriptor) = 0"
    by (simp add: resultingEvents_spec specSubscriptionMask_def newMonitoredDescriptor_def)
  have flag: "\<not> isInitialized (newMonitoredDescriptor 7 :: demo_cb MonitoredDescriptor)"
    "monitoredFd (newMonitoredDescriptor 7 :: demo_cb MonitoredDescriptor) = 7"
    by (simp_all add: newMonitoredDescriptor_def)
  show ?thesis
    using kernel_failure_keeps_registry [OF withFd7_entry,
        where K = kernelDown and eventType = EPOLLIN and h = "Some LogOnly"]
    by (simp add: withFd7_entry withFd7_fields inst clr same kernelDown_def call1 call2 flag
        Let_def)
qed

subsection \<open>Installing a callback\<close>

text \<open>
  C7 as stated fails.  \<open>setHandler\<close> takes the \<open>std::function\<close> by value and
  \<open>addEventHandler\<close> passes its parameter to it once per flag, so each slot owns a copy
  of the callback; no instance is shared.  In \<open>countBoth\<close> a counter at 0 was installed
  for \<open>EPOLLIN | EPOLLOUT\<close>.  A cycle that reports descriptor 7 readable calls the copy
  in the readable slot, which now counts 1, while the writable slot still holds a counter
  at 0: the two categories resolve to different callbacks.  A cycle that reports it
  readable and writable calls two objects that both stand at 0; one shared counter would
  stand at 1 for the second call.  And with an empty \<open>std::function\<close>, which the
  parameter type admits, \<open>hasHandler\<close> is false after the call.
\<close>

theorem shared_instance_counterexample:
  "monitoredFds countBoth 7 =
     Some ((newMonitoredDescriptor 7)
             \<lparr>IN_handler := Some (Count 0), OUT_handler := Some (Count 0),
              isInitialized := True\<rparr>) \<and>
   waitForEvents demo_run countBoth (-1) [EpollEvent EPOLLIN 7] =
     (Done \<lparr>monitoredFds =
              [7 \<mapsto> (newMonitoredDescriptor 7)
                       \<lparr>IN_handler := Some (Count 1), OUT_handler := Some (Count 0),
                        isInitialized := True\<rparr>],
            epollFd = 3, isEdgeTriggered = False,
            syscalls = [EpollCtlAdd 7 (EPOLLIN OR EPOLLOUT), EpollWait (-1)]\<rparr>,
      [(Count 0, 7)]) \<and>
   getHandler ((newMonitoredDescriptor 7)
                 \<lparr>IN_handler := Some (Count 1), OUT_handler := Some (Count 0),
                  isInitialized := True\<rparr>) EPOLLIN
     \<noteq> getHandler ((newMonitoredDescriptor 7)
                 \<lparr>IN_handler := Some (Count 1), OUT_handler := Some (Count 0),
                  isInitialized := True\<rparr>) EPOLLOUT \<and>
   snd (waitForEvents demo_run countBoth (-1) [EpollEvent (EPOLLIN OR EPOLLOUT) 7]) =
     [(Count 0, 7), (Count 0, 7)] \<and>
   monitoredFds (stateOf (addEventHandler kernelOk withFd7 7 (EPOLLIN OR EPOLLOUT) None)) 7 =
     Some ((newMonitoredDescriptor 7)\<lparr>isInitialized := True\<rparr>) \<and>
   \<not> hasHandler ((newMonitoredDescriptor 7 :: demo_cb MonitoredDescriptor)
                    \<lparr>isInitialized := True\<rparr>) EPOLLIN"
proof -
  have a: "monitoredFds countBoth 7 =
     Some ((newMonitoredDescriptor 7)
             \<lparr>IN_handler := Some (Count 0), OUT_handler := Some (Count 0),
              isInitialized := True\<rparr>)"
    by (simp add: countBoth_eq)
  have b: "waitForEvents demo_run countBoth (-1) [EpollEvent EPOLLIN 7] =
     (Done \<lparr>monitoredFds =
              [7 \<mapsto> (newMonitoredDescriptor 7)
                       \<lparr>IN_handler := Some (Count 1), OUT_handler := Some (Count 0),
                        isInitialized := True\<rparr>],
            epollFd = 3, isEdgeTriggered = False,
            syscalls = [EpollCtlAdd 7 (EPOLLIN OR EPOLLOUT), EpollWait (-1)]\<rparr>,
      [(Count 0, 7)])"
    by (simp add: waitForEvents_def countBoth_eq allEventTypes_def and_flags hasHandler_simps
        getHandler_simps setHandler_simps newMonitoredDescriptor_def)
  have c: "getHandler ((newMonitoredDescriptor 7)
                 \<lparr>IN_handler := Some (Count 1), OUT_handler := Some (Count 0),
                  isInitialized := True\<rparr>) EPOLLIN
     \<noteq> getHandler ((newMonitoredDescriptor 7)
                 \<lparr>IN_handler := Some (Count 1), OUT_handler := Some (Count 0),
                  isInitialized := True\<rparr>) EPOLLOUT"
    by (simp add: getHandler_simps)
  have d: "snd (waitForEvents demo_run countBoth (-1) [EpollEvent (EPOLLIN OR EPOLLOUT) 7]) =
     [(Count 0, 7), (Count 0, 7)]"
    by (simp add: waitForEvents_def countBoth_eq allEventTypes_def and_flags_inout
        hasHandler_simps getHandler_simps setHandler_simps newMonitoredDescriptor_def)
  have inst: "installHandlers (newMonitoredDescriptor 7 :: demo_cb MonitoredDescriptor)
       (EPOLLIN OR EPOLLOUT) None = newMonitoredDescriptor 7"
    by (simp add: installHandlers_unfold newMonitoredDescriptor_def evt_defs)
  have e: "monitoredFds (stateOf (addEventHandler kernelOk withFd7 7 (EPOLLIN OR EPOLLOUT) None)) 7 =
     Some ((newMonitoredDescriptor 7)\<lparr>isInitialized := True\<rparr>)"
    by (simp add: addEventHandler_entry [OF withFd7_entry] inst kernelOk_def)
  have f: "\<not> hasHandler ((newMonitoredDescriptor 7 :: demo_cb MonitoredDescriptor)
                    \<lparr>isInitialized := True\<rparr>) EPOLLIN"
    by (simp add: hasHandler_simps newMonitoredDescriptor_def)
  from a b c d e f show ?thesis by blast
qed

text \<open>
  C7, as the code has it.  After \<open>addEventHandler(fd, eventType, h)\<close> on a registered
  descriptor, whether or not the kernel call that follows succeeds, every category whose
  flag is in \<open>eventType\<close> holds a copy of \<open>h\<close>, so \<open>hasHandler\<close> is true for it
  exactly when \<open>h\<close> is not empty, and every other category keeps the handler it had.
  The copies are apart: writing the slot of one category, which is what a callback
  changing its own copy does, leaves the handler of every other category as it is.  For a
  non-empty \<open>cb\<close> and \<open>EPOLLIN | EPOLLOUT\<close>: both categories have a handler and both
  resolve to a callback equal to \<open>cb\<close>.
\<close>

theorem addEventHandler_installs:
  assumes reg: "monitoredFds s fd = Some md"
  shows
    "(\<exists>md'. monitoredFds (stateOf (addEventHandler K s fd eventType h)) fd = Some md' \<and>
        (\<forall>evt\<in>set allEventTypes.
           getHandler md' evt = (if eventType AND evt \<noteq> 0 then Inr h else getHandler md evt) \<and>
           hasHandler md' evt =
             (if eventType AND evt \<noteq> 0 then h \<noteq> None else hasHandler md evt)) \<and>
        (\<forall>evt\<in>set allEventTypes. \<forall>evt'\<in>set allEventTypes. evt' \<noteq> evt \<longrightarrow>
           getHandler (setHandler md' evt h') evt' = getHandler md' evt')) \<and>
     (\<exists>md'. monitoredFds (stateOf (addEventHandler K s fd (EPOLLIN OR EPOLLOUT) (Some cb))) fd
          = Some md' \<and>
        hasHandler md' EPOLLIN \<and> hasHandler md' EPOLLOUT \<and>
        getHandler md' EPOLLIN = Inr (Some cb) \<and> getHandler md' EPOLLOUT = Inr (Some cb))"
proof -
  let ?md' = "(installHandlers md eventType h)
      \<lparr>isInitialized := isInitialized md \<or>
         K (syscalls s) (specSubscriptionCall (isEdgeTriggered s)
                           (installHandlers md eventType h))\<rparr>"
  have entry: "monitoredFds (stateOf (addEventHandler K s fd eventType h)) fd = Some ?md'"
    by (rule addEventHandler_entry [OF reg])
  have slots: "\<forall>evt\<in>set allEventTypes.
      getHandler ?md' evt = (if eventType AND evt \<noteq> 0 then Inr h else getHandler md evt) \<and>
      hasHandler ?md' evt = (if eventType AND evt \<noteq> 0 then h \<noteq> None else hasHandler md evt)"
    by (rule installed_any)
  have apart: "\<forall>evt\<in>set allEventTypes. \<forall>evt'\<in>set allEventTypes. evt' \<noteq> evt \<longrightarrow>
      getHandler (setHandler ?md' evt h') evt' = getHandler ?md' evt'"
    by (rule slots_apart)
  from entry slots apart have
    "\<exists>md'. monitoredFds (stateOf (addEventHandler K s fd eventType h)) fd = Some md' \<and>
        (\<forall>evt\<in>set allEventTypes.
           getHandler md' evt = (if eventType AND evt \<noteq> 0 then Inr h else getHandler md evt) \<and>
           hasHandler md' evt =
             (if eventType AND evt \<noteq> 0 then h \<noteq> None else hasHandler md evt)) \<and>
        (\<forall>evt\<in>set allEventTypes. \<forall>evt'\<in>set allEventTypes. evt' \<noteq> evt \<longrightarrow>
           getHandler (setHandler md' evt h') evt' = getHandler md' evt')"
    by (intro exI conjI)
  with addEventHandler_installs_aux [OF reg, of K cb] show ?thesis by (rule conjI [rotated])
qed

theorem addEventHandler_installs_witness:
  "monitoredFds withFd7 7 = Some (newMonitoredDescriptor 7) \<and>
   (\<exists>md'. monitoredFds (stateOf (addEventHandler kernelOk withFd7 7 (EPOLLIN OR EPOLLOUT)
                                    (Some (Count 0)))) 7 = Some md' \<and>
      hasHandler md' EPOLLIN \<and> hasHandler md' EPOLLOUT \<and> \<not> hasHandler md' EPOLLHUP \<and>
      getHandler md' EPOLLIN = Inr (Some (Count 0)) \<and>
      getHandler md' EPOLLOUT = Inr (Some (Count 0)) \<and>
      getHandler (setHandler md' EPOLLIN (Some (Count 1))) EPOLLOUT = Inr (Some (Count 0)))"
proof -
  have bits: "(EPOLLIN OR EPOLLOUT) AND EPOLLIN \<noteq> 0" "(EPOLLIN OR EPOLLOUT) AND EPOLLOUT \<noteq> 0"
    "(EPOLLIN OR EPOLLOUT) AND EPOLLHUP = 0" "EPOLLOUT \<noteq> EPOLLIN"
    by (simp_all add: evt_defs)
  have mem: "EPOLLIN \<in> set allEventTypes" "EPOLLOUT \<in> set allEventTypes"
    "EPOLLHUP \<in> set allEventTypes"
    by (simp_all add: allEventTypes_def)
  have old: "\<not> hasHandler (newMonitoredDescriptor 7 :: demo_cb MonitoredDescriptor) EPOLLHUP"
    by (simp add: hasHandler_simps newMonitoredDescriptor_def)
  have "\<exists>md'. monitoredFds (stateOf (addEventHandler kernelOk withFd7 7 (EPOLLIN OR EPOLLOUT)
          (Some (Count 0)))) 7 = Some md' \<and>
      (\<forall>evt\<in>set allEventTypes.
           getHandler md' evt = (if (EPOLLIN OR EPOLLOUT) AND evt \<noteq> 0 then Inr (Some (Count 0))
                                 else getHandler (newMonitoredDescriptor 7) evt) \<and>
           hasHandler md' evt =
             (if (EPOLLIN OR EPOLLOUT) AND evt \<noteq> 0 then Some (Count 0) \<noteq> None
              else hasHandler (newMonitoredDescriptor 7 :: demo_cb MonitoredDescriptor) evt)) \<and>
      (\<forall>evt\<in>set allEventTypes. \<forall>evt'\<in>set allEventTypes. evt' \<noteq> evt \<longrightarrow>
           getHandler (setHandler md' evt (Some (Count 1))) evt' = getHandler md' evt')"
    using addEventHandler_installs [OF withFd7_entry,
      where K = kernelOk and eventType = "EPOLLIN OR EPOLLOUT" and h = "Some (Count 0)"
        and h' = "Some (Count 1)" and cb = "Count 0"]
    by (rule conjunct1)
  then obtain md' where
    e: "monitoredFds (stateOf (addEventHandler kernelOk withFd7 7 (EPOLLIN OR EPOLLOUT)
          (Some (Count 0)))) 7 = Some md'"
    and slots: "\<forall>evt\<in>set allEventTypes.
           getHandler md' evt = (if (EPOLLIN OR EPOLLOUT) AND evt \<noteq> 0 then Inr (Some (Count 0))
                                 else getHandler (newMonitoredDescriptor 7) evt) \<and>
           hasHandler md' evt =
             (if (EPOLLIN OR EPOLLOUT) AND evt \<noteq> 0 then Some (Count 0) \<noteq> None
              else hasHandler (newMonitoredDescriptor 7 :: demo_cb MonitoredDescriptor) evt)"
    and apart: "\<forall>evt\<in>set allEventTypes. \<forall>evt'\<in>set allEventTypes. evt' \<noteq> evt \<longrightarrow>
           getHandler (setHandler md' evt (Some (Count 1))) evt' = getHandler md' evt'"
    by (elim exE conjE)
  from slots mem bits old have
    "hasHandler md' EPOLLIN" "hasHandler md' EPOLLOUT" "\<not> hasHandler md' EPOLLHUP"
    "getHandler md' EPOLLIN = Inr (Some (Count 0))"
    "getHandler md' EPOLLOUT = Inr (Some (Count 0))"
    by simp_all
  moreover from apart mem bits have
    "getHandler (setHandler md' EPOLLIN (Some (Count 1))) EPOLLOUT = getHandler md' EPOLLOUT"
    by blast
  ultimately show ?thesis
    using e withFd7_entry by auto
qed

subsection \<open>Cleanup after a hang-up\<close>

text \<open>
  C1 as stated fails.  Descriptor 5 of \<open>readerOnly\<close> has a readable-handler and no handler for
  \<open>EPOLLHUP\<close> or \<open>EPOLLRDHUP\<close>.  The kernel reports \<open>EPOLLHUP\<close> whether or not it
  was asked for; when it does, the wait loop removes the descriptor: the test of line 59
  looks at the reported bits only.  So a descriptor without a hang-up callback does not
  stay in the registry.
\<close>

theorem hangup_without_handler_counterexample:
  "monitoredFds readerOnly 5 =
     Some ((newMonitoredDescriptor 5)\<lparr>IN_handler := Some LogOnly, isInitialized := True\<rparr>) \<and>
   \<not> hasHandler ((newMonitoredDescriptor 5)\<lparr>IN_handler := Some LogOnly, isInitialized := True\<rparr>)
       EPOLLHUP \<and>
   \<not> hasHandler ((newMonitoredDescriptor 5)\<lparr>IN_handler := Some LogOnly, isInitialized := True\<rparr>)
       EPOLLRDHUP \<and>
   EPOLLHUP AND (EPOLLRDHUP OR EPOLLHUP) \<noteq> 0 \<and>
   monitoredFds (stateOf (fst
      (waitForEvents demo_run readerOnly (-1) [EpollEvent EPOLLHUP 5]))) 5 = None"
  by (simp add: waitForEvents_def readerOnly_eq allEventTypes_def and_flags hasHandler_simps
      getHandler_simps removeDescriptor_def epollCtlDelete_def Let_def newMonitoredDescriptor_def)

text \<open>
  C1, as the code has it.  Take a wait-cycle whose reported descriptors are distinct and
  registered and whose callbacks return normally and neither add nor remove descriptors.
  The cycle returns, and a reported descriptor is absent from the registry afterwards
  exactly when its reported bits include \<open>EPOLLRDHUP\<close> or \<open>EPOLLHUP\<close>, with or
  without a callback registered for a hang-up category; the descriptors that were not
  reported are registered afterwards exactly when they were before.
\<close>

theorem hangup_cleanup:
  assumes quiet: "\<forall>cb slot fd s. \<exists>s'. run cb slot fd s = Done s' \<and>
                    dom (monitoredFds s') = dom (monitoredFds s)"
    and dist: "distinct (map data_fd reported)"
    and reg: "data_fd ` set reported \<subseteq> dom (monitoredFds s)"
  shows "\<exists>s'. fst (waitForEvents run s timeout reported) = Done s' \<and>
     (\<forall>e\<in>set reported.
        (data_fd e \<in> dom (monitoredFds s')) = (events e AND (EPOLLRDHUP OR EPOLLHUP) = 0)) \<and>
     (\<forall>k. k \<notin> data_fd ` set reported \<longrightarrow>
        (k \<in> dom (monitoredFds s')) = (k \<in> dom (monitoredFds s)))"
proof -
  let ?s0 = "s\<lparr>syscalls := syscalls s @ [EpollWait timeout]\<rparr>"
  from reg have "data_fd ` set reported \<subseteq> dom (monitoredFds ?s0)" by simp
  from waitLoop_quiet [OF quiet dist this, of "[]"] obtain s' calls' where
    w: "waitLoop run reported ?s0 [] = (Done s', calls')"
    and dom': "dom (monitoredFds s') = dom (monitoredFds s) -
        data_fd ` {e \<in> set reported. events e AND (EPOLLRDHUP OR EPOLLHUP) \<noteq> 0}" by auto
  have inj: "x = y" if "x \<in> set reported" "y \<in> set reported" "data_fd x = data_fd y" for x y
    using dist that by (meson distinct_map inj_onD)
  have a: "(data_fd e \<in> dom (monitoredFds s')) = (events e AND (EPOLLRDHUP OR EPOLLHUP) = 0)"
    if "e \<in> set reported" for e
  proof -
    from that reg have "data_fd e \<in> dom (monitoredFds s)" by auto
    then show ?thesis
      unfolding dom' using that inj by auto
  qed
  have b: "(k \<in> dom (monitoredFds s')) = (k \<in> dom (monitoredFds s))"
    if "k \<notin> data_fd ` set reported" for k
    unfolding dom' using that by auto
  from w a b show ?thesis
    by (simp add: waitForEvents_def)
qed

theorem hangup_cleanup_witness:
  "dom (monitoredFds readerOnly) = {5} \<and>
   (\<exists>s'. fst (waitForEvents logRun readerOnly (-1) [EpollEvent (EPOLLIN OR EPOLLHUP) 5]) = Done s' \<and>
      5 \<notin> dom (monitoredFds s')) \<and>
   (\<exists>s'. fst (waitForEvents logRun readerOnly (-1) [EpollEvent EPOLLIN 5]) = Done s' \<and>
      5 \<in> dom (monitoredFds s'))"
proof -
  have quiet: "\<forall>cb slot fd s. \<exists>s'. logRun cb slot fd s = Done s' \<and>
      dom (monitoredFds s') = dom (monitoredFds s)"
    by (simp add: logRun_def)
  have bits: "(EPOLLIN OR EPOLLHUP) AND (EPOLLRDHUP OR EPOLLHUP) \<noteq> 0"
    "EPOLLIN AND (EPOLLRDHUP OR EPOLLHUP) = 0"
    by (simp_all add: evt_defs)
  have one: "distinct (map data_fd [EpollEvent w 5])"
    "data_fd ` set [EpollEvent w 5] \<subseteq> dom (monitoredFds readerOnly)" for w
    by (simp_all add: readerOnly_fields)
  show ?thesis
    using hangup_cleanup [OF quiet one [of "EPOLLIN OR EPOLLHUP"], where timeout = "-1"]
      hangup_cleanup [OF quiet one [of EPOLLIN], where timeout = "-1"] bits
    by (auto simp: readerOnly_fields)
qed

subsection \<open>A descriptor removed by its own callback\<close>

text \<open>
  C2.  In \<open>twoClients\<close> the kernel reports descriptors 5 and 6 readable.  The handler of
  5 removes descriptor 5; at the next event type the loop finds 5 gone and executes
  \<open>return\<close>, which leaves \<open>waitForEvents\<close> altogether: the readable-handler of 6,
  registered and matching, is never invoked, and the only invocation is the one for 5.
\<close>

theorem early_return_skips_later_events:
  "waitForEvents demo_run twoClients (-1) [EpollEvent EPOLLIN 5, EpollEvent EPOLLIN 6] =
     (Done \<lparr>monitoredFds =
              [6 \<mapsto> (newMonitoredDescriptor 6)\<lparr>IN_handler := Some LogOnly, isInitialized := True\<rparr>],
            epollFd = 3, isEdgeTriggered = False,
            syscalls = [EpollCtlAdd 5 EPOLLIN, EpollCtlAdd 6 EPOLLIN, EpollWait (-1),
                        EpollCtlDel 5]\<rparr>,
      [(CloseSelf, 5)]) \<and>
   hasHandler ((newMonitoredDescriptor 6)\<lparr>IN_handler := Some LogOnly, isInitialized := True\<rparr>)
     (EPOLLIN AND EPOLLIN)"
  by (simp add: waitForEvents_def twoClients_eq allEventTypes_def and_flags hasHandler_simps
      getHandler_simps removeDescriptor_def epollCtlDelete_def Let_def newMonitoredDescriptor_def
      fun_upd_twist)

subsection \<open>Removing handlers\<close>

text \<open>
  C8.  After \<open>removeEventHandler(fd, eventType)\<close> on a registered descriptor, a category
  whose flag is in \<open>eventType\<close> has no handler and every other category keeps the
  handler it had, whether or not the kernel call that follows succeeds.  After
  \<open>addEventHandler(fd, EPOLLIN | EPOLLOUT, cb)\<close> and then
  \<open>removeEventHandler(fd, EPOLLIN)\<close>, \<open>hasHandler(EPOLLIN)\<close> is false and
  \<open>hasHandler(EPOLLOUT)\<close> is still true.
\<close>

theorem removeEventHandler_clears:
  assumes reg: "monitoredFds s fd = Some md"
  shows
    "(\<exists>md'. monitoredFds (stateOf (removeEventHandler K s fd eventType)) fd = Some md' \<and>
        (\<forall>evt\<in>set allEventTypes.
           getHandler md' evt = (if eventType AND evt \<noteq> 0 then Inr None else getHandler md evt) \<and>
           hasHandler md' evt = (eventType AND evt = 0 \<and> hasHandler md evt))) \<and>
     (\<exists>md1 md2.
        monitoredFds (stateOf (addEventHandler K s fd (EPOLLIN OR EPOLLOUT) (Some cb))) fd
          = Some md1 \<and>
        hasHandler md1 EPOLLIN \<and> hasHandler md1 EPOLLOUT \<and>
        monitoredFds (stateOf (removeEventHandler K'
            (stateOf (addEventHandler K s fd (EPOLLIN OR EPOLLOUT) (Some cb))) fd EPOLLIN)) fd
          = Some md2 \<and>
        \<not> hasHandler md2 EPOLLIN \<and> hasHandler md2 EPOLLOUT)"
proof -
  have entry: "monitoredFds (stateOf (removeEventHandler k t fd et)) fd =
      Some ((clearHandlers m et)
              \<lparr>isInitialized := isInitialized m \<or>
                 k (syscalls t) (specSubscriptionCall (isEdgeTriggered t) (clearHandlers m et))\<rparr>)"
    if "monitoredFds t fd = Some m" for k t et and m :: "'a MonitoredDescriptor"
    by (simp add: removeEventHandler_registered [OF that] reloadEventHandlers_eq)
  have slots: "\<forall>evt\<in>set allEventTypes.
      getHandler ((clearHandlers m et)\<lparr>isInitialized := b\<rparr>) evt
        = (if et AND evt \<noteq> 0 then Inr None else getHandler m evt) \<and>
      hasHandler ((clearHandlers m et)\<lparr>isInitialized := b\<rparr>) evt
        = (et AND evt = 0 \<and> hasHandler m evt)"
    for et b and m :: "'a MonitoredDescriptor"
    by (simp add: allEventTypes_def hasHandler_simps getHandler_simps clearHandlers_unfold)
  have first: "\<exists>md'. monitoredFds (stateOf (removeEventHandler K s fd eventType)) fd = Some md' \<and>
        (\<forall>evt\<in>set allEventTypes.
           getHandler md' evt = (if eventType AND evt \<noteq> 0 then Inr None else getHandler md evt) \<and>
           hasHandler md' evt = (eventType AND evt = 0 \<and> hasHandler md evt))"
    using slots [where m = md and et = eventType] by (simp add: entry [OF reg])
  let ?s1 = "stateOf (addEventHandler K s fd (EPOLLIN OR EPOLLOUT) (Some cb))"
  obtain md1 where md1: "monitoredFds ?s1 fd = Some md1"
    and h1: "hasHandler md1 EPOLLIN" "hasHandler md1 EPOLLOUT"
    using addEventHandler_installs_aux [OF reg] by blast
  have bits: "EPOLLIN AND EPOLLIN \<noteq> 0" "EPOLLIN AND EPOLLOUT = 0"
    by (simp_all add: evt_defs)
  have mem: "EPOLLIN \<in> set allEventTypes" "EPOLLOUT \<in> set allEventTypes"
    by (simp_all add: allEventTypes_def)
  have "\<exists>md2. monitoredFds (stateOf (removeEventHandler K' ?s1 fd EPOLLIN)) fd = Some md2 \<and>
      \<not> hasHandler md2 EPOLLIN \<and> hasHandler md2 EPOLLOUT"
    using slots [where m = md1 and et = EPOLLIN] bits mem h1 by (simp add: entry [OF md1])
  with md1 h1 have second: "\<exists>md1 md2.
        monitoredFds ?s1 fd = Some md1 \<and>
        hasHandler md1 EPOLLIN \<and> hasHandler md1 EPOLLOUT \<and>
        monitoredFds (stateOf (removeEventHandler K' ?s1 fd EPOLLIN)) fd = Some md2 \<and>
        \<not> hasHandler md2 EPOLLIN \<and> hasHandler md2 EPOLLOUT"
    by blast
  from first second show ?thesis by blast
qed

theorem removeEventHandler_clears_witness:
  "monitoredFds withFd7 7 = Some (newMonitoredDescriptor 7) \<and>
   monitoredFds (stateOf (removeEventHandler kernelOk
       (stateOf (addEventHandler kernelOk withFd7 7 (EPOLLIN OR EPOLLOUT) (Some LogOnly)))
       7 EPOLLIN)) 7
     = Some ((newMonitoredDescriptor 7)\<lparr>OUT_handler := Some LogOnly, isInitialized := True\<rparr>) \<and>
   (\<exists>md2. monitoredFds (stateOf (removeEventHandler kernelOk
       (stateOf (addEventHandler kernelOk withFd7 7 (EPOLLIN OR EPOLLOUT) (Some LogOnly)))
       7 EPOLLIN)) 7 = Some md2 \<and> \<not> hasHandler md2 EPOLLIN \<and> hasHandler md2 EPOLLOUT)"
proof -
  let ?s1 = "stateOf (addEventHandler kernelOk withFd7 7 (EPOLLIN OR EPOLLOUT) (Some LogOnly))"
  have inst: "installHandlers (newMonitoredDescriptor 7) (EPOLLIN OR EPOLLOUT) (Some LogOnly) =
      (newMonitoredDescriptor 7)\<lparr>IN_handler := Some LogOnly, OUT_handler := Some LogOnly\<rparr>"
    by (simp add: installHandlers_unfold newMonitoredDescriptor_def evt_defs)
  have e1: "monitoredFds ?s1 7 =
     Some ((newMonitoredDescriptor 7)
             \<lparr>IN_handler := Some LogOnly, OUT_handler := Some LogOnly, isInitialized := True\<rparr>)"
    by (simp add: addEventHandler_entry [OF withFd7_entry] inst kernelOk_def)
  have clr: "clearHandlers ((newMonitoredDescriptor 7)
             \<lparr>IN_handler := Some LogOnly, OUT_handler := Some LogOnly, isInitialized := True\<rparr>)
             EPOLLIN
      = (newMonitoredDescriptor 7)\<lparr>OUT_handler := Some LogOnly, isInitialized := True\<rparr>"
    by (simp add: clearHandlers_unfold newMonitoredDescriptor_def evt_defs)
  have e2: "monitoredFds (stateOf (removeEventHandler kernelOk ?s1 7 EPOLLIN)) 7
     = Some ((newMonitoredDescriptor 7)\<lparr>OUT_handler := Some LogOnly, isInitialized := True\<rparr>)"
    by (simp add: removeEventHandler_entry [OF e1] clr)
  show ?thesis
    using removeEventHandler_clears [OF withFd7_entry, of kernelOk EPOLLIN LogOnly kernelOk]
    by (simp add: withFd7_entry e2 hasHandler_simps newMonitoredDescriptor_def)
qed

subsection \<open>Removing a descriptor and adding it again\<close>

text \<open>
  C9.  A registered descriptor, whatever its entry's \<open>isInitialized\<close> flag, is gone after
  \<open>removeDescriptor\<close>, and as well after a wait-cycle that reports it with a hang-up bit
  and returns (the automatic cleanup).  In both cases \<open>addDescriptor\<close> then creates a
  fresh entry whose flag is false, so the next subscription for it, from
  \<open>addEventHandler\<close> or \<open>removeEventHandler\<close>, is an \<open>EPOLL_CTL_ADD\<close> call and not
  a modify; the flag becomes true exactly when the kernel accepts that call.
\<close>

theorem readded_descriptor_subscribes_afresh:
  fixes md :: "'a MonitoredDescriptor"
  assumes reg: "monitoredFds s fd = Some md"
  shows
    "(let s1 = removeDescriptor s fd; s2 = stateOf (addDescriptor K1 s1 fd)
      in monitoredFds s1 fd = None \<and>
         monitoredFds s2 fd = Some (newMonitoredDescriptor fd) \<and>
         \<not> isInitialized (newMonitoredDescriptor fd :: 'a MonitoredDescriptor) \<and>
         syscalls (stateOf (addEventHandler K2 s2 fd eventType h)) =
           syscalls s2 @
             [EpollCtlAdd fd (resultingEvents (isEdgeTriggered s)
                (installHandlers (newMonitoredDescriptor fd) eventType h))] \<and>
         syscalls (stateOf (removeEventHandler K2 s2 fd eventType)) =
           syscalls s2 @
             [EpollCtlAdd fd (resultingEvents (isEdgeTriggered s)
                (clearHandlers (newMonitoredDescriptor fd :: 'a MonitoredDescriptor) eventType))] \<and>
         (\<exists>md'. monitoredFds (stateOf (addEventHandler K2 s2 fd eventType h)) fd = Some md' \<and>
            isInitialized md' =
              K2 (syscalls s2) (EpollCtlAdd fd (resultingEvents (isEdgeTriggered s)
                (installHandlers (newMonitoredDescriptor fd) eventType h))))) \<and>
     (\<forall>s1. evs AND (EPOLLRDHUP OR EPOLLHUP) \<noteq> 0 \<and>
            fst (waitForEvents run s timeout [EpollEvent evs fd]) = Done s1 \<longrightarrow>
        (let s2 = stateOf (addDescriptor K1 s1 fd)
         in monitoredFds s1 fd = None \<and>
            monitoredFds s2 fd = Some (newMonitoredDescriptor fd) \<and>
            syscalls (stateOf (addEventHandler K2 s2 fd eventType h)) =
              syscalls s2 @
                [EpollCtlAdd fd (resultingEvents (isEdgeTriggered s1)
                   (installHandlers (newMonitoredDescriptor fd) eventType h))] \<and>
            syscalls (stateOf (removeEventHandler K2 s2 fd eventType)) =
              syscalls s2 @
                [EpollCtlAdd fd (resultingEvents (isEdgeTriggered s1)
                   (clearHandlers (newMonitoredDescriptor fd :: 'a MonitoredDescriptor)
                      eventType))]))"
proof -
  have gone: "monitoredFds (removeDescriptor s fd) fd = None"
    by (simp add: removeDescriptor_registry)
  have flag: "\<not> isInitialized (newMonitoredDescriptor fd :: 'a MonitoredDescriptor)"
    by (simp add: newMonitoredDescriptor_def)
  have explicit: "let s1 = removeDescriptor s fd; s2 = stateOf (addDescriptor K1 s1 fd)
      in monitoredFds s1 fd = None \<and>
         monitoredFds s2 fd = Some (newMonitoredDescriptor fd) \<and>
         \<not> isInitialized (newMonitoredDescriptor fd :: 'a MonitoredDescriptor) \<and>
         syscalls (stateOf (addEventHandler K2 s2 fd eventType h)) =
           syscalls s2 @
             [EpollCtlAdd fd (resultingEvents (isEdgeTriggered s)
                (installHandlers (newMonitoredDescriptor fd) eventType h))] \<and>
         syscalls (stateOf (removeEventHandler K2 s2 fd eventType)) =
           syscalls s2 @
             [EpollCtlAdd fd (resultingEvents (isEdgeTriggered s)
                (clearHandlers (newMonitoredDescriptor fd :: 'a MonitoredDescriptor) eventType))] \<and>
         (\<exists>md'. monitoredFds (stateOf (addEventHandler K2 s2 fd eventType h)) fd = Some md' \<and>
            isInitialized md' =
              K2 (syscalls s2) (EpollCtlAdd fd (resultingEvents (isEdgeTriggered s)
                (installHandlers (newMonitoredDescriptor fd) eventType h))))"
    using gone flag readd_absent(4) [OF gone, where ?K1.0 = K1 and ?K2.0 = K2
        and eventType = eventType and h = h]
    by (simp add: Let_def readd_absent(1-3) [OF gone])
  have automatic: "let s2 = stateOf (addDescriptor K1 s1 fd)
         in monitoredFds s1 fd = None \<and>
            monitoredFds s2 fd = Some (newMonitoredDescriptor fd) \<and>
            syscalls (stateOf (addEventHandler K2 s2 fd eventType h)) =
              syscalls s2 @
                [EpollCtlAdd fd (resultingEvents (isEdgeTriggered s1)
                   (installHandlers (newMonitoredDescriptor fd) eventType h))] \<and>
            syscalls (stateOf (removeEventHandler K2 s2 fd eventType)) =
              syscalls s2 @
                [EpollCtlAdd fd (resultingEvents (isEdgeTriggered s1)
                   (clearHandlers (newMonitoredDescriptor fd :: 'a MonitoredDescriptor)
                      eventType))]"
    if "evs AND (EPOLLRDHUP OR EPOLLHUP) \<noteq> 0"
      "fst (waitForEvents run s timeout [EpollEvent evs fd]) = Done s1" for s1
  proof -
    from hangup_single_event [of "EpollEvent evs fd" run s timeout s1] that
    have g: "monitoredFds s1 fd = None" by simp
    from g show ?thesis
      by (simp add: Let_def readd_absent(1-3) [OF g])
  qed
  from explicit automatic show ?thesis by blast
qed

theorem readded_descriptor_subscribes_afresh_witness:
  "monitoredFds readerOnly 5 =
     Some ((newMonitoredDescriptor 5)\<lparr>IN_handler := Some LogOnly, isInitialized := True\<rparr>) \<and>
   monitoredFds (stateOf (addDescriptor kernelOk (removeDescriptor readerOnly 5) 5)) 5
     = Some (newMonitoredDescriptor 5) \<and>
   syscalls (stateOf (addEventHandler kernelOk
       (stateOf (addDescriptor kernelOk (removeDescriptor readerOnly 5) 5)) 5 EPOLLIN
       (Some LogOnly)))
     = [EpollCtlAdd 5 EPOLLIN, EpollCtlDel 5, EpollCtlAdd 5 EPOLLIN] \<and>
   syscalls (stateOf (addEventHandler kernelOk
       (stateOf (addDescriptor kernelOk
          (stateOf (fst (waitForEvents demo_run readerOnly (-1) [EpollEvent EPOLLHUP 5]))) 5))
       5 EPOLLIN (Some LogOnly)))
     = [EpollCtlAdd 5 EPOLLIN, EpollWait (-1), EpollCtlDel 5, EpollCtlAdd 5 EPOLLIN]"
proof -
  have inst: "installHandlers (newMonitoredDescriptor 5) EPOLLIN (Some LogOnly) =
      (newMonitoredDescriptor 5)\<lparr>IN_handler := Some LogOnly\<rparr>"
    by (simp add: installHandlers_unfold newMonitoredDescriptor_def evt_defs)
  have msk: "resultingEvents False
      ((newMonitoredDescriptor 5 :: demo_cb MonitoredDescriptor)\<lparr>IN_handler := Some LogOnly\<rparr>)
      = EPOLLIN"
    by (simp add: resultingEvents_spec specSubscriptionMask_def newMonitoredDescriptor_def)
  have sys: "syscalls (stateOf (addDescriptor kernelOk (removeDescriptor readerOnly 5) 5))
      = [EpollCtlAdd 5 EPOLLIN, EpollCtlDel 5]"
    by (simp add: addDescriptor_def removeDescriptor_def epollCtlDelete_def Let_def
        readerOnly_entry readerOnly_fields)
  have cycle: "fst (waitForEvents demo_run readerOnly (-1) [EpollEvent EPOLLHUP 5]) =
      Done \<lparr>monitoredFds = Map.empty, epollFd = 3, isEdgeTriggered = False,
            syscalls = [EpollCtlAdd 5 EPOLLIN, EpollWait (-1), EpollCtlDel 5]\<rparr>"
    by (simp add: waitForEvents_def readerOnly_eq allEventTypes_def and_flags hasHandler_simps
      getHandler_simps removeDescriptor_def epollCtlDelete_def Let_def newMonitoredDescriptor_def)
  have sys2: "syscalls (stateOf (addDescriptor kernelOk
      \<lparr>monitoredFds = Map.empty, epollFd = 3, isEdgeTriggered = False,
        syscalls = [EpollCtlAdd 5 EPOLLIN, EpollWait (-1), EpollCtlDel 5]\<rparr> 5))
      = [EpollCtlAdd 5 EPOLLIN, EpollWait (-1), EpollCtlDel 5]"
    by (simp add: addDescriptor_def)
  show ?thesis
    using readded_descriptor_subscribes_afresh [OF readerOnly_entry,
        where ?K1.0 = kernelOk and ?K2.0 = kernelOk and eventType = EPOLLIN and h = "Some LogOnly"
          and evs = EPOLLHUP and run = demo_run and timeout = "-1"]
    by (simp add: Let_def readerOnly_entry readerOnly_fields inst msk sys cycle sys2 and_flags)
qed

subsection \<open>Adding a descriptor repeatedly\<close>

text \<open>
  C6.  After one or more calls \<open>addDescriptor(fd)\<close>, thrown or not, the registry is the
  one the first call left: \<open>fd\<close> is a key of it (the registry is a map, a key has one
  entry), with a fresh entry where \<open>fd\<close> was absent, and where \<open>fd\<close> was registered
  already the whole registry, and so that entry with its handlers, is unchanged.
\<close>

theorem addDescriptor_idempotent:
  "monitoredFds (addDescriptorTimes K fd (Suc n) s) =
     (case monitoredFds s fd of
        None \<Rightarrow> (monitoredFds s)(fd \<mapsto> newMonitoredDescriptor fd)
      | Some md \<Rightarrow> monitoredFds s) \<and>
   fd \<in> dom (monitoredFds (addDescriptorTimes K fd (Suc n) s)) \<and>
   monitoredFds (addDescriptorTimes K fd (Suc n) s) =
     monitoredFds (stateOf (addDescriptor K s fd))"
proof -
  let ?s1 = "stateOf (addDescriptor K s fd)"
  obtain md1 where one: "monitoredFds ?s1 fd = Some md1"
    by (cases "monitoredFds s fd") (auto simp: addDescriptor_registry)
  have "monitoredFds (addDescriptorTimes K fd (Suc n) s) = monitoredFds ?s1"
    using addDescriptorTimes_present [OF one] by simp
  then show ?thesis
    using one by (auto simp: addDescriptor_registry split: option.splits)
qed

theorem addDescriptor_idempotent_witness:
  "monitoredFds (addDescriptorTimes kernelOk 5 3 readerOnly) = monitoredFds readerOnly \<and>
   monitoredFds (addDescriptorTimes kernelOk 5 3 readerOnly) 5 =
     Some ((newMonitoredDescriptor 5)\<lparr>IN_handler := Some LogOnly, isInitialized := True\<rparr>) \<and>
   monitoredFds (addDescriptorTimes kernelDown 9 2 edgeReactor) =
     [9 \<mapsto> newMonitoredDescriptor 9]"
  using addDescriptor_idempotent [of kernelOk 5 2 readerOnly]
    addDescriptor_idempotent [of kernelDown 9 1 edgeReactor]
  by (simp add: readerOnly_entry numeral_3_eq_3 numeral_2_eq_2 edgeReactor_def)

subsection \<open>Event types outside the six categories\<close>

text \<open>
  C10.  For an \<open>eventType\<close> that is not exactly one of the six flags of \<open>allEventTypes\<close>
  (zero, a union of two flags, any other value), \<open>hasHandler\<close> answers false whatever
  the slots hold, and \<open>setHandler\<close> changes no slot: both \<open>switch\<close> statements fall to
  their \<open>default\<close>.
\<close>

theorem unrecognised_event_type:
  assumes "eventType \<notin> set allEventTypes"
  shows "\<not> hasHandler md eventType \<and> setHandler md eventType h = md"
  using assms by (simp add: hasHandler_def setHandler_def allEventTypes_def)

theorem unrecognised_event_type_witness:
  "EPOLLIN OR EPOLLOUT \<notin> set allEventTypes \<and> hasHandler fullEntry EPOLLIN \<and>
   hasHandler fullEntry EPOLLOUT \<and> \<not> hasHandler fullEntry (EPOLLIN OR EPOLLOUT) \<and>
   setHandler fullEntry (EPOLLIN OR EPOLLOUT) None = fullEntry \<and>
   \<not> hasHandler fullEntry 0 \<and> setHandler fullEntry 0 (Some CloseSelf) = fullEntry"
proof -
  have a: "EPOLLIN OR EPOLLOUT \<notin> set allEventTypes"
    by (simp add: allEventTypes_def evt_defs)
  have b: "0 \<notin> set allEventTypes"
    by (simp add: allEventTypes_def evt_defs)
  show ?thesis
    using a unrecognised_event_type [OF a, of fullEntry None]
      unrecognised_event_type [OF b, of fullEntry "Some CloseSelf"]
    by (simp add: hasHandler_simps fullEntry_def)
qed

subsection \<open>Adding a handler to a descriptor that was never added\<close>

text \<open>
  C4.  For a descriptor that is not in the registry, \<open>addEventHandler\<close> throws its
  "file descriptor must first be added" error and leaves the reactor as it was: the
  registry is unchanged and no system call has been issued.
\<close>

theorem addEventHandler_unregistered:
  assumes "monitoredFds s fd = None"
  shows "addEventHandler K s fd eventType eventHandler = Throw DescriptorNotAdded s \<and>
         syscalls (stateOf (addEventHandler K s fd eventType eventHandler)) = syscalls s \<and>
         monitoredFds (stateOf (addEventHandler K s fd eventType eventHandler))
           = monitoredFds s"
  using assms by (simp add: addEventHandler_def)

theorem addEventHandler_unregistered_witness:
  "monitoredFds levelReactor 7 = None \<and>
   addEventHandler kernelOk levelReactor 7 EPOLLIN (Some LogOnly)
     = Throw DescriptorNotAdded levelReactor \<and>
   syscalls (stateOf (addEventHandler kernelOk levelReactor 7 EPOLLIN (Some LogOnly))) = []"
proof -
  have a: "monitoredFds levelReactor 7 = None" by (simp add: levelReactor_def)
  show ?thesis
    using a addEventHandler_unregistered [OF a, of kernelOk EPOLLIN "Some LogOnly"]
    by (simp add: levelReactor_def)
qed

end
